theory Spec2Isabelle
  imports Main
begin

section \<open>JavaScript values: thrown errors and strings\<close>

text \<open>
  A thrown value is either an \<open>Error\<close> object (class name, message, stack text) or any
  other value, kept by its \<open>String(...)\<close> form.  A computation that may throw returns
  \<open>js_error + 'a\<close>, with \<open>Inl\<close> the thrown value.
\<close>

datatype js_error = JsError string string string | JsThrown string

text \<open>\<^verbatim>\<open>error instanceof Error ? error.stack : String(error)\<close>, used by both catch blocks.\<close>

fun diagnostic :: "js_error \<Rightarrow> string" where
  "diagnostic (JsError name message stack) = stack"
| "diagnostic (JsThrown s) = s"

text \<open>
  \<^verbatim>\<open>new Error(message)\<close>: the stack starts with the header line \<open>Error: message\<close>; the
  frame lines after it are the engine's and are passed in as \<open>frames\<close>.
\<close>

definition new_Error :: "string \<Rightarrow> string \<Rightarrow> js_error" where
  "new_Error frames message = JsError ''Error'' message (''Error: '' @ message @ frames)"

definition nl :: string where
  "nl = [CHR 0x0A]"

fun starts_with :: "string \<Rightarrow> string \<Rightarrow> bool" where
  "starts_with s [] = True"
| "starts_with [] (p # ps) = False"
| "starts_with (c # cs) (p # ps) = (c = p \<and> starts_with cs ps)"

text \<open>\<open>StringIndexOf(string, searchValue, 0)\<close>: the first position where the search string occurs.\<close>

fun StringIndexOf :: "string \<Rightarrow> string \<Rightarrow> nat option" where
  "StringIndexOf [] pat = (if pat = [] then Some 0 else None)"
| "StringIndexOf (c # cs) pat =
     (if starts_with (c # cs) pat then Some 0 else map_option Suc (StringIndexOf cs pat))"

definition str_includes :: "string \<Rightarrow> string \<Rightarrow> bool" where
  "str_includes s pat = (StringIndexOf s pat \<noteq> None)"

text \<open>
  \<open>GetSubstitution(matched, str, position, captures = [], namedCaptures = undefined, template)\<close>
  as \<^verbatim>\<open>String.prototype.replace\<close> calls it for a string pattern: \<^verbatim>\<open>$$\<close> is a dollar sign,
  \<^verbatim>\<open>$&\<close> the matched text, \<^verbatim>\<open>$`\<close> the text before the match, \<^verbatim>\<open>$'\<close> the text after it.
  With no captures, \<^verbatim>\<open>$n\<close>, \<^verbatim>\<open>$nn\<close> and \<^verbatim>\<open>$<\<close> stand for themselves, like every other
  character, so the last equation covers them.
\<close>

fun GetSubstitution :: "string \<Rightarrow> string \<Rightarrow> nat \<Rightarrow> string \<Rightarrow> string" where
  "GetSubstitution matched str position [] = []"
| "GetSubstitution matched str position [c] = [c]"
| "GetSubstitution matched str position (c # d # rest) =
     (if c = CHR ''$'' \<and> d = CHR ''$'' then CHR ''$'' # GetSubstitution matched str position rest
      else if c = CHR ''$'' \<and> d = CHR 0x60 then take position str @ GetSubstitution matched str position rest
      else if c = CHR ''$'' \<and> d = CHR ''&'' then matched @ GetSubstitution matched str position rest
      else if c = CHR ''$'' \<and> d = CHR 0x27 then
        drop (min (position + length matched) (length str)) str @ GetSubstitution matched str position rest
      else c # GetSubstitution matched str position (d # rest))"

text \<open>
  \<^verbatim>\<open>str.replace(searchValue, replaceValue)\<close> with both arguments strings: only the first
  occurrence is replaced; without an occurrence the string is returned as it is.
\<close>

definition replace :: "string \<Rightarrow> string \<Rightarrow> string \<Rightarrow> string" where
  "replace str searchValue replaceValue =
     (case StringIndexOf str searchValue of
        None \<Rightarrow> str
      | Some position \<Rightarrow>
          take position str
          @ GetSubstitution searchValue str position replaceValue
          @ drop (position + length searchValue) str)"

section \<open>The Express server (server.ts)\<close>

datatype http_method = GET | HEAD | POST | PUT | DELETE | PATCH | OPTIONS

record express_request =
  req_method :: http_method
  originalUrl :: string
  headers :: "(string \<times> string) list"
  body :: string

record express_response =
  status :: nat
  res_headers :: "(string \<times> string) list"
  res_body :: string

text \<open>The WHATWG \<open>Request\<close> built by \<^verbatim>\<open>new Request(url)\<close>: a GET without headers or body.\<close>

record fetch_request =
  rq_url :: string
  rq_method :: string
  rq_headers :: "(string \<times> string) list"
  rq_body :: "string option"

type_synonym render_fn = "fetch_request \<Rightarrow> js_error + string"

text \<open>The Vite dev-server handle: the three members the server uses.\<close>

record vite_server =
  middlewares :: "express_request \<Rightarrow> express_response option"
  transformIndexHtml :: "string \<Rightarrow> string \<Rightarrow> js_error + string"
  ssrLoadModule :: "string \<Rightarrow> js_error + render_fn"

text \<open>
  Module-level state of server.ts: \<open>isProd\<close>, \<open>__dirname\<close>, \<open>process.env.PORT\<close> and
  the \<open>vite\<close> variable (\<open>None\<close> is \<open>null\<close>).  The two variables \<open>isProd\<close> and \<open>vite\<close>
  are separate in the source; which combinations a running server can be in is decided
  by \<open>start\<close> below.
\<close>

record process =
  isProd :: bool
  dirname :: string
  PORT :: "string option"
  vite :: "vite_server option"

text \<open>
  \<open>initializeVite\<close> (server.ts 37-47).  \<open>vite\<close> starts as \<open>null\<close>.  Outside production the
  function awaits \<open>import('vite')\<close> and \<open>createServer(...)\<close>, whose joint outcome is
  \<open>createServer\<close> here, and assigns the server; a rejection leaves the function by
  throwing.  In production it does nothing.
\<close>

definition initializeVite :: "bool \<Rightarrow> js_error + vite_server \<Rightarrow> js_error + vite_server option" where
  "initializeVite prod_mode createServer =
     (if \<not> prod_mode
      then (case createServer of Inl e \<Rightarrow> Inl e | Inr v \<Rightarrow> Inr (Some v))
      else Inr None)"

text \<open>
  Start-up of the module (server.ts 8-50): \<open>isProd\<close> is
  \<open>process.env.NODE_ENV === 'production'\<close>, then \<open>await initializeVite()\<close> runs before
  \<open>app.get\<close> registers the route.  When the awaited call throws, the module's evaluation
  fails: no route is registered and no request is ever handled.
\<close>

definition start ::
  "string option \<Rightarrow> string \<Rightarrow> string option \<Rightarrow> js_error + vite_server \<Rightarrow> js_error + process" where
  "start node_env dir port_env createServer =
     (case initializeVite (node_env = Some ''production'') createServer of
        Inl e \<Rightarrow> Inl e
      | Inr v \<Rightarrow>
          Inr \<lparr>isProd = (node_env = Some ''production''), dirname = dir, PORT = port_env, vite = v\<rparr>)"

text \<open>
  What the platform answers at the time of one request: \<open>readFileSync(path, 'utf-8')\<close>,
  the dynamic \<open>import('./dist/server/entry-server.js')\<close>, the URL parser behind
  \<open>new Request\<close> (it returns the serialised URL or throws a \<open>TypeError\<close>), and the files
  \<open>express.static\<close> finds under dist/client.
\<close>

record platform =
  readFileSync :: "string \<Rightarrow> js_error + string"
  import_entry_server :: "js_error + render_fn"
  parse_url :: "string \<Rightarrow> js_error + string"
  static_file :: "string \<Rightarrow> express_response option"

datatype event =
    ReadFile string
  | TransformIndexHtml string
  | SsrLoadModule string
  | ImportModule string
  | NewRequest string
  | Render fetch_request
  | ConsoleError string

text \<open>A step of the handler: its result or the value it threw, and the effects it performed.\<close>

type_synonym 'a io = "(js_error + 'a) \<times> event list"

definition returns :: "'a \<Rightarrow> 'a io" where
  "returns x = (Inr x, [])"

definition perform :: "event \<Rightarrow> js_error + 'a \<Rightarrow> 'a io" where
  "perform ev r = (r, [ev])"

definition bind_io :: "'a io \<Rightarrow> ('a \<Rightarrow> 'b io) \<Rightarrow> 'b io" where
  "bind_io m f =
     (case m of
        (Inl e, evs) \<Rightarrow> (Inl e, evs)
      | (Inr x, evs) \<Rightarrow> (case f x of (r, evs') \<Rightarrow> (r, evs @ evs')))"

definition resolve :: "process \<Rightarrow> string \<Rightarrow> string" where
  "resolve p path = dirname p @ ''/'' @ path"

text \<open>\<^verbatim>\<open>process.env.PORT || 3000\<close> inside the template literal.\<close>

definition port :: "process \<Rightarrow> string" where
  "port p = (case PORT p of None \<Rightarrow> ''3000'' | Some s \<Rightarrow> if s = [] then ''3000'' else s)"

definition new_Request :: "platform \<Rightarrow> string \<Rightarrow> js_error + fetch_request" where
  "new_Request w url =
     (case parse_url w url of
        Inl e \<Rightarrow> Inl e
      | Inr href \<Rightarrow> Inr \<lparr>rq_url = href, rq_method = ''GET'', rq_headers = [], rq_body = None\<rparr>)"

definition request_url :: "process \<Rightarrow> string \<Rightarrow> string" where
  "request_url p url = ''http://localhost:'' @ port p @ url"

definition placeholder :: string where
  "placeholder = ''<!--app-html-->''"

text \<open>The development branch of the handler (server.ts 67-81): template and rendered HTML.\<close>

definition dev_branch :: "process \<Rightarrow> platform \<Rightarrow> vite_server \<Rightarrow> string \<Rightarrow> (string \<times> string) io" where
  "dev_branch p w v url =
     bind_io (perform (ReadFile (resolve p ''index.html'')) (readFileSync w (resolve p ''index.html'')))
       (\<lambda>template0.
     bind_io (perform (TransformIndexHtml url) (transformIndexHtml v url template0))
       (\<lambda>template.
     bind_io (perform (SsrLoadModule ''/src/entry-server.tsx'') (ssrLoadModule v ''/src/entry-server.tsx''))
       (\<lambda>devRender.
     bind_io (perform (NewRequest (request_url p url)) (new_Request w (request_url p url)))
       (\<lambda>request.
     bind_io (perform (Render request) (devRender request))
       (\<lambda>appHtml. returns (template, appHtml))))))"

text \<open>The production branch of the handler (server.ts 83-95).\<close>

definition prod_branch :: "process \<Rightarrow> platform \<Rightarrow> string \<Rightarrow> (string \<times> string) io" where
  "prod_branch p w url =
     bind_io (perform (ReadFile (resolve p ''dist/client/index.html''))
                (readFileSync w (resolve p ''dist/client/index.html'')))
       (\<lambda>template.
     bind_io (perform (ImportModule ''./dist/server/entry-server.js'') (import_entry_server w))
       (\<lambda>render.
     bind_io (perform (NewRequest (request_url p url)) (new_Request w (request_url p url)))
       (\<lambda>request.
     bind_io (perform (Render request) (render request))
       (\<lambda>appHtml. returns (template, appHtml)))))"

text \<open>\<^verbatim>\<open>if (!isProd && vite) { ... } else { ... }\<close>\<close>

definition select_branch :: "process \<Rightarrow> platform \<Rightarrow> string \<Rightarrow> (string \<times> string) io" where
  "select_branch p w url =
     (case vite p of
        Some v \<Rightarrow> if \<not> isProd p then dev_branch p w v url else prod_branch p w url
      | None \<Rightarrow> prod_branch p w url)"

definition error_page :: "string \<Rightarrow> string" where
  "error_page errorMessage =
     nl @ ''      <html>'' @ nl
     @ ''        <head><title>Server Error</title></head>'' @ nl
     @ ''        <body>'' @ nl
     @ ''          <h1>Server Error</h1>'' @ nl
     @ ''          <pre>'' @ errorMessage @ ''</pre>'' @ nl
     @ ''        </body>'' @ nl
     @ ''      </html>'' @ nl
     @ ''    ''"

text \<open>
  The handler registered by \<^verbatim>\<open>app.get('*', ...)\<close> (server.ts 60-123): the response it sends
  and the effects it performed.  Only \<open>originalUrl\<close> of the incoming request is read.
\<close>

definition ssr_handler :: "process \<Rightarrow> platform \<Rightarrow> express_request \<Rightarrow> express_response \<times> event list" where
  "ssr_handler p w req =
     (case select_branch p w (originalUrl req) of
        (Inr (template, appHtml), evs) \<Rightarrow>
          (\<lparr>status = 200, res_headers = [(''Content-Type'', ''text/html'')],
            res_body = replace template placeholder appHtml\<rparr>, evs)
      | (Inl error, evs) \<Rightarrow>
          (\<lparr>status = 500, res_headers = [], res_body = error_page (diagnostic error)\<rparr>,
           evs @ [ConsoleError (diagnostic error)]))"

text \<open>
  The application: the middleware registered before the route, then the route.
  \<open>compression()\<close> always calls \<open>next\<close>.  \<open>express.static\<close> is registered in production only and
  answers GET and HEAD requests for files it finds; \<open>vite.middlewares\<close> is registered when
  \<open>initializeVite\<close> created the dev server.  \<open>app.get\<close> routes GET requests, and HEAD
  requests as no HEAD route is registered; \<open>'*'\<close> matches every path.  A request that no
  layer answers is left to the framework's default (\<open>Unrouted\<close>).
\<close>

datatype outcome =
    ByMiddleware express_response
  | BySsrHandler express_response "event list"
  | Unrouted

definition express_static :: "platform \<Rightarrow> express_request \<Rightarrow> express_response option" where
  "express_static w req =
     (if req_method req = GET \<or> req_method req = HEAD then static_file w (originalUrl req) else None)"

definition route_matches :: "express_request \<Rightarrow> bool" where
  "route_matches req = (req_method req = GET \<or> req_method req = HEAD)"

definition earlier_middleware :: "process \<Rightarrow> platform \<Rightarrow> express_request \<Rightarrow> express_response option" where
  "earlier_middleware p w req =
     (if isProd p then express_static w req
      else (case vite p of Some v \<Rightarrow> middlewares v req | None \<Rightarrow> None))"

definition app :: "process \<Rightarrow> platform \<Rightarrow> express_request \<Rightarrow> outcome" where
  "app p w req =
     (case earlier_middleware p w req of
        Some res \<Rightarrow> ByMiddleware res
      | None \<Rightarrow>
          if route_matches req
          then (case ssr_handler p w req of (res, evs) \<Rightarrow> BySsrHandler res evs)
          else Unrouted)"

text \<open>Serving requests one after the other, each against the platform as it is at that time.\<close>

fun serve :: "process \<Rightarrow> (platform \<times> express_request) list \<Rightarrow> (express_response \<times> event list) list" where
  "serve p [] = []"
| "serve p ((w, req) # rest) = ssr_handler p w req # serve p rest"

section \<open>Numbers in markup\<close>

text \<open>The decimal digit for a number below ten, which is all \<open>show_nat\<close> asks for.\<close>

definition digit_char :: "nat \<Rightarrow> char" where
  "digit_char d = ''0123456789'' ! d"

function show_nat :: "nat \<Rightarrow> string" where
  "show_nat n = (if n < 10 then [digit_char n] else show_nat (n div 10) @ [digit_char (n mod 10)])"
  by pat_completeness auto
termination
  by (relation "measure (\<lambda>n. n)") auto

declare show_nat.simps [simp del]

definition show_int :: "int \<Rightarrow> string" where
  "show_int i = (if i < 0 then ''-'' @ show_nat (nat (- i)) else show_nat (nat i))"

section \<open>Element trees (JSX)\<close>

text \<open>
  What a component returns: text, host elements with attributes and children, fragments,
  and components of the routing library (\<open>HeadContent\<close>, \<open>Scripts\<close>, \<open>Link\<close>, the
  devtools), which stay opaque.
\<close>

datatype node =
    Text string
  | Element string "(string \<times> string) list" "node list"
  | Fragment "node list"
  | Component string "(string \<times> string) list" "node list"

text \<open>The text a tree states, in document order.\<close>

fun textContent :: "node \<Rightarrow> string" where
  "textContent (Text s) = s"
| "textContent (Element tag attrs children) = concat (map textContent children)"
| "textContent (Fragment children) = concat (map textContent children)"
| "textContent (Component cname props children) = concat (map textContent children)"

fun has_element :: "string \<Rightarrow> node \<Rightarrow> bool" where
  "has_element t (Text s) = False"
| "has_element t (Element tag attrs children) = (tag = t \<or> list_ex (has_element t) children)"
| "has_element t (Fragment children) = list_ex (has_element t) children"
| "has_element t (Component cname props children) = list_ex (has_element t) children"

section \<open>The query layer\<close>

text \<open>
  Modelled from the spec: the cache of the data-fetching library (\<open>QueryClient\<close>, its
  \<open>ensureQueryData\<close> and \<open>useSuspenseQuery\<close>), which is imported and not in src/.  The spec's
  data model gives an entry a value, a freshness timestamp and a retry count; its contract
  is \<open>getOrFetch(key, fetchFn, staleTimeMs)\<close>: the cached value if present and not expired,
  otherwise \<open>fetchFn\<close> is invoked, the result stored with a fresh timestamp and returned;
  a failing fetch is retried as often as \<open>retry\<close> says before the failure is surfaced.
  The numbers come from the source: router.tsx configures \<open>staleTime: 1000 * 60 * 5\<close> and
  \<open>retry: 1\<close>.
\<close>

record 'd cache_entry =
  entry_value :: 'd
  updatedAt :: nat
  retryCount :: nat

record 'd QueryClient =
  default_staleTime :: nat
  retry :: nat
  entries :: "string list \<Rightarrow> 'd cache_entry option"

section \<open>The outside world of a render\<close>

record 'd fetch_response =
  resp_status :: nat
  statusText :: string
  resp_json :: "string + 'd"

text \<open>\<open>response.ok\<close>: the status is in the range 200-299.\<close>

definition ok :: "'d fetch_response \<Rightarrow> bool" where
  "ok response = (200 \<le> resp_status response \<and> resp_status response \<le> 299)"

text \<open>\<open>response.json()\<close>: the parsed body, or a \<open>SyntaxError\<close> with the parser's message.\<close>

definition json :: "'d fetch_response \<Rightarrow> js_error + 'd" where
  "json response =
     (case resp_json response of
        Inl msg \<Rightarrow> Inl (JsError ''SyntaxError'' msg (''SyntaxError: '' @ msg))
      | Inr d \<Rightarrow> Inr d)"

text \<open>
  The network answers the n-th \<open>fetch\<close> of the process for a URL with a response or a
  rejection; \<open>fetched\<close> lists the URLs fetched so far, \<open>clock\<close> is the time in
  milliseconds.  \<open>renderToString\<close> is the rendering library's serialiser; it sees the tree
  and the query client of the router it renders.
\<close>

record 'd world =
  net :: "nat \<Rightarrow> string \<Rightarrow> js_error + 'd fetch_response"
  fetched :: "string list"
  clock :: nat
  frames :: string
  NODE_ENV :: "string option"
  toLocaleDateString :: "string \<Rightarrow> string"
  renderToString :: "'d QueryClient \<Rightarrow> node \<Rightarrow> string"

definition fetch :: "'d world \<Rightarrow> string \<Rightarrow> (js_error + 'd fetch_response) \<times> 'd world" where
  "fetch w url = (net w (length (fetched w)) url, w\<lparr>fetched := fetched w @ [url]\<rparr>)"

type_synonym 'd fetch_fn = "'d world \<Rightarrow> (js_error + 'd) \<times> 'd world"

text \<open>
  Modelled from the spec: a fetch with retries.  The result, the world afterwards and the
  number of times \<open>fetchFn\<close> was invoked.
\<close>

fun with_retry :: "nat \<Rightarrow> 'd fetch_fn \<Rightarrow> 'd world \<Rightarrow> (js_error + 'd) \<times> 'd world \<times> nat" where
  "with_retry 0 fetchFn w = (case fetchFn w of (r, w') \<Rightarrow> (r, w', 1))"
| "with_retry (Suc n) fetchFn w =
     (case fetchFn w of
        (Inr d, w') \<Rightarrow> (Inr d, w', 1)
      | (Inl e, w') \<Rightarrow> (case with_retry n fetchFn w' of (r, w'', k) \<Rightarrow> (r, w'', Suc k)))"

text \<open>
  Modelled from the spec: an entry is expired once the staleness window after its
  timestamp has passed (the expiry policy is time-based only).
\<close>

definition expired :: "nat \<Rightarrow> nat \<Rightarrow> 'd cache_entry \<Rightarrow> bool" where
  "expired now staleTimeMs e = (updatedAt e + staleTimeMs \<le> now)"

text \<open>
  Modelled from the spec: the miss path of \<open>getOrFetch\<close>.  \<open>fetchFn\<close> is invoked with the
  client's retries; a result is stored under the key with the time of the world as its
  timestamp, a failure stores nothing.
\<close>

definition fetch_and_store ::
  "'d QueryClient \<Rightarrow> string list \<Rightarrow> 'd fetch_fn \<Rightarrow> 'd world
     \<Rightarrow> (js_error + 'd) \<times> 'd QueryClient \<times> 'd world \<times> nat" where
  "fetch_and_store qc key fetchFn w =
     (case with_retry (retry qc) fetchFn w of
        (Inr d, w', k) \<Rightarrow>
          (Inr d,
           qc\<lparr>entries := (entries qc)(key \<mapsto> \<lparr>entry_value = d, updatedAt = clock w', retryCount = k - 1\<rparr>)\<rparr>,
           w', k)
      | (Inl e, w', k) \<Rightarrow> (Inl e, qc, w', k))"

text \<open>
  Modelled from the spec: \<open>getOrFetch\<close>.  The last component counts the invocations of
  \<open>fetchFn\<close> this call made.
\<close>

definition getOrFetch ::
  "'d QueryClient \<Rightarrow> string list \<Rightarrow> 'd fetch_fn \<Rightarrow> nat \<Rightarrow> 'd world
     \<Rightarrow> (js_error + 'd) \<times> 'd QueryClient \<times> 'd world \<times> nat" where
  "getOrFetch qc key fetchFn staleTimeMs w =
     (case entries qc key of
        Some e \<Rightarrow>
          if \<not> expired (clock w) staleTimeMs e then (Inr (entry_value e), qc, w, 0)
          else fetch_and_store qc key fetchFn w
      | None \<Rightarrow> fetch_and_store qc key fetchFn w)"

record 'd query_options =
  queryKey :: "string list"
  query_fn :: "'d fetch_fn"
  staleTime :: nat

text \<open>
  Modelled from the spec: \<open>queryClient.ensureQueryData(options)\<close>, the call the loader
  makes, is \<open>getOrFetch\<close> with the key, the query function and the stale time of the
  options.
\<close>

definition ensureQueryData ::
  "'d QueryClient \<Rightarrow> 'd query_options \<Rightarrow> 'd world \<Rightarrow> (js_error + 'd) \<times> 'd QueryClient \<times> 'd world \<times> nat" where
  "ensureQueryData qc opts w = getOrFetch qc (queryKey opts) (query_fn opts) (staleTime opts) w"

text \<open>
  Modelled from the spec: \<open>useSuspenseQuery\<close> during the server render reads the entry the
  loader stored; without an entry the component cannot render.
\<close>

definition useSuspenseQuery :: "'d QueryClient \<Rightarrow> 'd query_options \<Rightarrow> js_error + 'd" where
  "useSuspenseQuery qc opts =
     (case entries qc (queryKey opts) of
        Some e \<Rightarrow> Inr (entry_value e)
      | None \<Rightarrow> Inl (JsThrown ''suspended''))"

section \<open>The repositories route: query (routes/repos/$username.tsx)\<close>

record GitHubRepository =
  repo_id :: int
  repo_name :: string
  description :: "string option"
  html_url :: string
  stargazers_count :: int
  language :: "string option"
  updated_at :: string

type_synonym repos = "GitHubRepository list"

definition dq :: string where
  "dq = [CHR 0x22]"

definition not_found_message :: "string \<Rightarrow> string" where
  "not_found_message username = ''User '' @ dq @ username @ dq @ '' not found''"

definition failed_message :: "string \<Rightarrow> string \<Rightarrow> string" where
  "failed_message username text = ''Failed to load repos for '' @ username @ '': '' @ text"

definition repos_url :: "string \<Rightarrow> string" where
  "repos_url username = ''https://api.github.com/users/'' @ username @ ''/repos''"

text \<open>
  \<open>queryFn\<close> of \<open>userReposQuery(username)\<close>.  Its \<open>catch\<close> logs and throws the same error
  again, so every error leaves it unchanged; the logging is left out.  The cast
  \<open>data as GitHubRepository[]\<close> checks nothing: the parsed body is returned as it is.
\<close>

definition queryFn :: "string \<Rightarrow> 'd fetch_fn" where
  "queryFn username w =
     (case fetch w (repos_url username) of
        (Inl error, w') \<Rightarrow> (Inl error, w')
      | (Inr response, w') \<Rightarrow>
          if \<not> ok response then
            if resp_status response = 404
            then (Inl (new_Error (frames w') (not_found_message username)), w')
            else (Inl (new_Error (frames w') (failed_message username (statusText response))), w')
          else (json response, w'))"

definition userReposQuery :: "string \<Rightarrow> 'd query_options" where
  "userReposQuery username =
     \<lparr>queryKey = [''githubRepos'', username], query_fn = queryFn username, staleTime = 1000 * 60 * 5\<rparr>"

section \<open>The router (router.tsx)\<close>

text \<open>
  \<open>getRouter\<close> constructs a new \<open>QueryClient\<close> and puts it into the router's context.  The
  wiring of the SSR query integration belongs to the library and is left out.
\<close>

record 'd router =
  queryClient :: "'d QueryClient"
  defaultPreload :: string

definition getRouter :: "unit \<Rightarrow> 'd router" where
  "getRouter u =
     \<lparr>queryClient = \<lparr>default_staleTime = 1000 * 60 * 5, retry = 1, entries = (\<lambda>key. None)\<rparr>,
      defaultPreload = ''intent''\<rparr>"

text \<open>The loader of the repositories route: \<open>ensureQueryData\<close> on the context's client.\<close>

definition loader :: "string \<Rightarrow> 'd router \<Rightarrow> 'd world \<Rightarrow> (js_error + 'd) \<times> 'd router \<times> 'd world" where
  "loader username r w =
     (case ensureQueryData (queryClient r) (userReposQuery username) w of
        (res, qc', w', k) \<Rightarrow> (res, r\<lparr>queryClient := qc'\<rparr>, w'))"

section \<open>Pages\<close>

definition cls :: "string \<Rightarrow> (string \<times> string) list" where
  "cls c = [(''className'', c)]"

text \<open>One list item of the repositories page (\<open>repos.map(...)\<close>).\<close>

definition repo_item :: "(string \<Rightarrow> string) \<Rightarrow> GitHubRepository \<Rightarrow> node" where
  "repo_item localeDate repo =
     Element ''li''
       ((''key'', show_int (repo_id repo))
        # cls ''bg-white border border-gray-200 rounded-lg p-4 hover:shadow-md transition-shadow'')
       [Element ''div'' (cls ''flex items-start justify-between'')
         [Element ''div'' (cls ''flex-1'')
           ([Element ''a''
               ([(''href'', html_url repo), (''target'', ''_blank''), (''rel'', ''noreferrer'')]
                @ cls ''text-blue-600 hover:text-blue-800 hover:underline font-semibold text-lg'')
               [Text (repo_name repo)]]
            @ (case description repo of
                 None \<Rightarrow> []
               | Some d \<Rightarrow> if d = [] then [Text []]
                           else [Element ''p'' (cls ''text-gray-700 mt-1'') [Text d]])
            @ [Element ''div'' (cls ''flex items-center gap-4 mt-2 text-sm text-gray-500'')
                ((case language repo of
                    None \<Rightarrow> []
                  | Some l \<Rightarrow> if l = [] then [Text []]
                              else [Element ''span'' (cls ''flex items-center gap-1'')
                                     [Element ''span'' (cls ''w-3 h-3 bg-blue-500 rounded-full'') [],
                                      Text l]])
                 @ [Element ''span'' (cls ''flex items-center gap-1'')
                      [Text [CHR 0xE2, CHR 0xAD, CHR 0x90, CHR '' ''],
                       Text (show_int (stargazers_count repo))],
                    Element ''span'' []
                      [Text ''Updated '', Text (localeDate (updated_at repo))]])])]]"

text \<open>What \<open>ReposPage\<close> returns for the username of the route and the data of the query.\<close>

definition ReposPage_view :: "(string \<Rightarrow> string) \<Rightarrow> string \<Rightarrow> repos \<Rightarrow> node" where
  "ReposPage_view localeDate username repos =
     Element ''div'' (cls ''max-w-4xl mx-auto'')
       [Element ''h2'' (cls ''text-3xl font-bold text-gray-900 mb-2'')
          [Text ''Repositories of '', Text username],
        Element ''p'' (cls ''text-gray-600 mb-6'')
          [Text ''Showing '', Text (show_nat (length repos)), Text '' '',
           Text (if length repos = 1 then ''repository'' else ''repositories'')],
        (if length repos = 0
         then Element ''div'' (cls ''bg-yellow-50 border border-yellow-200 rounded-lg p-4'')
                [Element ''p'' (cls ''text-yellow-900'')
                   [Text ''No public repositories found for this user.'']]
         else Element ''ul'' (cls ''space-y-4'') (map (repo_item localeDate) repos))]"

text \<open>\<open>ReposPage\<close>: the data comes from \<open>useSuspenseQuery(userReposQuery(username))\<close>.\<close>

definition ReposPage :: "repos world \<Rightarrow> repos router \<Rightarrow> string \<Rightarrow> js_error + node" where
  "ReposPage w r username =
     (case useSuspenseQuery (queryClient r) (userReposQuery username) of
        Inl e \<Rightarrow> Inl e
      | Inr repos \<Rightarrow> Inr (ReposPage_view (toLocaleDateString w) username repos))"

text \<open>\<open>HomePage\<close> (routes/index.tsx).\<close>

definition HomePage :: node where
  "HomePage =
     Element ''div'' (cls ''max-w-2xl mx-auto'')
       [Element ''h1'' (cls ''text-4xl font-bold text-gray-900 mb-4'')
          [Text ''Welcome to the SSR React App!''],
        Element ''p'' (cls ''text-lg text-gray-700 mb-6'')
          [Text ''This is a server-side rendered React application built with:''],
        Element ''ul'' (cls ''list-disc list-inside space-y-2 text-gray-700'')
          [Element ''li'' [] [Text ''React 18 with TypeScript''],
           Element ''li'' [] [Text ''TanStack Router for type-safe routing''],
           Element ''li'' [] [Text ''TanStack Query for data fetching and caching''],
           Element ''li'' [] [Text ''Tailwind CSS for styling''],
           Element ''li'' [] [Text ''Vite for fast development and building'']],
        Element ''div'' (cls ''mt-8 p-4 bg-blue-50 border border-blue-200 rounded-lg'')
          [Element ''p'' (cls ''text-sm text-blue-900'')
             [Element ''strong'' [] [Text ''Try it out:''],
              Text '' Navigate to'', Text '' '',
              Element ''a'' ((''href'', ''/repos/tanstack'') # cls ''text-blue-600 hover:underline font-semibold'')
                [Text ''/repos/tanstack''],
              Text '' '',
              Text ''to see server-side data fetching in action!'']]]"

text \<open>\<open>RootLayout\<close> (routes/__root.tsx); \<open>outlet\<close> is what \<open>Outlet\<close> renders, the matched page.\<close>

definition RootLayout :: "string option \<Rightarrow> node \<Rightarrow> node" where
  "RootLayout node_env outlet =
     Fragment
       [Component ''HeadContent'' [] [],
        Element ''div'' (cls ''min-h-screen flex flex-col bg-gray-50'')
          ([Element ''header'' (cls ''bg-blue-600 text-white shadow-md'')
              [Element ''nav'' (cls ''container mx-auto px-4 py-4'')
                 [Element ''div'' (cls ''flex space-x-6'')
                    [Component ''Link''
                       ((''to'', ''/'') # cls ''font-bold text-lg hover:text-blue-200 transition-colors''
                        @ [(''activeProps.className'', ''underline'')])
                       [Text ''Home''],
                     Component ''Link''
                       ((''to'', ''/repos/tanstack'')
                        # cls ''font-bold text-lg hover:text-blue-200 transition-colors''
                        @ [(''activeProps.className'', ''underline'')])
                       [Text ''TanStack Repos'']]]],
            Element ''main'' (cls ''flex-1 container mx-auto px-4 py-8'') [outlet],
            Element ''footer'' (cls ''bg-gray-800 text-white py-4 mt-auto'')
              [Element ''div'' (cls ''container mx-auto px-4 text-center text-sm'')
                 [Element ''p'' [] [Text ''SSR React App with TanStack Router & Query'']]]]
           @ (if node_env = Some ''development''
              then [Component ''TanStackRouterDevtools'' [(''position'', ''bottom-right'')] []]
              else [])),
        Component ''Scripts'' [] []]"

section \<open>Route resolution and the render entry (entry-server.tsx)\<close>

text \<open>
  Modelled from the spec: route resolution, done by the routing library over the generated
  route tree (routeTree.gen, not in src/).  The spec maps a request path to exactly one
  page definition or to a not-found fallback without data loading.  The route files
  define \<open>/\<close> and \<open>/repos/$username\<close>.
\<close>

datatype route_match = IndexRoute | ReposRoute string | NotFoundRoute

definition pathname :: "string \<Rightarrow> string" where
  "pathname href =
     takeWhile (\<lambda>c. c \<noteq> CHR ''?'' \<and> c \<noteq> CHR ''#'')
       (dropWhile (\<lambda>c. c \<noteq> CHR ''/'') (drop (length ''http://'') href))"

definition match_route :: "string \<Rightarrow> route_match" where
  "match_route path =
     (if path = ''/'' \<or> path = [] then IndexRoute
      else if starts_with path ''/repos/'' \<and> drop (length ''/repos/'') path \<noteq> []
                \<and> CHR ''/'' \<notin> set (drop (length ''/repos/'') path)
      then ReposRoute (drop (length ''/repos/'') path)
      else NotFoundRoute)"

text \<open>
  The error component of the routing library, which stays opaque; it is given the error.
\<close>

fun error_message :: "js_error \<Rightarrow> string" where
  "error_message (JsError cname message stack) = message"
| "error_message (JsThrown s) = s"

definition ErrorComponent :: "js_error \<Rightarrow> node" where
  "ErrorComponent e = Component ''ErrorComponent'' [(''error'', error_message e)] []"

text \<open>
  Modelled from the spec: the request handler of the routing library with the callback
  that entry-server.tsx gives it.  It creates the router with \<open>getRouter\<close>, resolves the
  route, runs its loader to completion, and only then renders.  A rejecting loader does
  not reject the handler: the library keeps the error in the route match and, on the
  server, renders the router's error component where the page would be (the spec, 7: any
  failure produces an HTML error page).  Only a throw while the page itself renders
  rejects the handler.
\<close>

definition handler ::
  "repos world \<Rightarrow> fetch_request \<Rightarrow> (js_error + string) \<times> repos router \<times> repos world" where
  "handler w request =
     (let r = getRouter () in
      case match_route (pathname (rq_url request)) of
        IndexRoute \<Rightarrow>
          (Inr (renderToString w (queryClient r) (RootLayout (NODE_ENV w) HomePage)), r, w)
      | NotFoundRoute \<Rightarrow>
          (Inr (renderToString w (queryClient r)
                  (RootLayout (NODE_ENV w) (Component ''DefaultNotFound'' [] []))), r, w)
      | ReposRoute username \<Rightarrow>
          (case loader username r w of
             (Inl e, r', w') \<Rightarrow>
               (Inr (renderToString w' (queryClient r') (RootLayout (NODE_ENV w') (ErrorComponent e))),
                r', w')
           | (Inr data, r', w') \<Rightarrow>
               (case ReposPage w' r' username of
                  Inl e \<Rightarrow> (Inl e, r', w')
                | Inr page \<Rightarrow>
                    (Inr (renderToString w' (queryClient r') (RootLayout (NODE_ENV w') page)), r', w'))))"

definition error_fragment :: "js_error \<Rightarrow> string" where
  "error_fragment error = ''<div><h1>Server Error</h1><pre>'' @ diagnostic error @ ''</pre></div>''"

text \<open>
  \<open>render({ request })\<close> (entry-server.tsx): the \<open>try\<close> block awaits the handler and
  returns the text of its response, the \<open>catch\<close> block returns the error markup as an
  ordinary result.  The second component is the world after the call.
\<close>

definition render :: "repos world \<Rightarrow> fetch_request \<Rightarrow> string \<times> repos world" where
  "render w request =
     (case handler w request of
        (Inr html, r, w') \<Rightarrow> (html, w')
      | (Inl error, r, w') \<Rightarrow> (error_fragment error, w'))"

text \<open>The \<open>render\<close> export as the server obtains it from the module it loads.\<close>

definition entry_server :: "repos world \<Rightarrow> render_fn" where
  "entry_server w = (\<lambda>request. Inr (fst (render w request)))"

section \<open>Notions used by the properties\<close>

text \<open>The template the selected branch of the handler obtains for a URL.\<close>

definition shell :: "process \<Rightarrow> platform \<Rightarrow> string \<Rightarrow> js_error + string" where
  "shell p w url =
     (case vite p of
        Some v \<Rightarrow>
          if \<not> isProd p
          then (case readFileSync w (resolve p ''index.html'') of
                  Inl e \<Rightarrow> Inl e
                | Inr template \<Rightarrow> transformIndexHtml v url template)
          else readFileSync w (resolve p ''dist/client/index.html'')
      | None \<Rightarrow> readFileSync w (resolve p ''dist/client/index.html''))"

text \<open>The render function the selected branch loads.\<close>

definition render_module :: "process \<Rightarrow> platform \<Rightarrow> js_error + render_fn" where
  "render_module p w =
     (case vite p of
        Some v \<Rightarrow> if \<not> isProd p then ssrLoadModule v ''/src/entry-server.tsx'' else import_entry_server w
      | None \<Rightarrow> import_entry_server w)"

definition count_reads :: "string \<Rightarrow> event list \<Rightarrow> nat" where
  "count_reads path evs = length (filter (\<lambda>ev. ev = ReadFile path) evs)"

definition count_transforms :: "event list \<Rightarrow> nat" where
  "count_transforms evs = length (filter (\<lambda>ev. case ev of TransformIndexHtml u \<Rightarrow> True | _ \<Rightarrow> False) evs)"

text \<open>A replacement text in which no dollar sign starts a replacement pattern.\<close>

fun plain_replacement :: "string \<Rightarrow> bool" where
  "plain_replacement [] = True"
| "plain_replacement [c] = True"
| "plain_replacement (c # d # rest) =
     ((c = CHR ''$'' \<longrightarrow> d \<noteq> CHR ''$'' \<and> d \<noteq> CHR 0x60 \<and> d \<noteq> CHR ''&'' \<and> d \<noteq> CHR 0x27)
      \<and> plain_replacement (d # rest))"

definition tag_delimited :: "string \<Rightarrow> bool" where
  "tag_delimited s = (case s of [] \<Rightarrow> False | c # cs \<Rightarrow> c = CHR ''<'' \<and> last (c # cs) = CHR ''>'')"

section \<open>Concrete inputs\<close>

definition example_shell :: string where
  "example_shell = ''<html><body><div id=root><!--app-html--></div></body></html>''"

definition example_process :: "bool \<Rightarrow> vite_server option \<Rightarrow> process" where
  "example_process production v = \<lparr>isProd = production, dirname = ''/app'', PORT = None, vite = v\<rparr>"

definition example_vite :: "render_fn \<Rightarrow> vite_server" where
  "example_vite f =
     \<lparr>middlewares = (\<lambda>req. None),
      transformIndexHtml = (\<lambda>url template. Inr template),
      ssrLoadModule = (\<lambda>path. Inr f)\<rparr>"

definition example_platform :: "string \<Rightarrow> render_fn \<Rightarrow> platform" where
  "example_platform template f =
     \<lparr>readFileSync =
        (\<lambda>path. if path = ''/app/dist/client/index.html'' \<or> path = ''/app/index.html''
                then Inr template
                else Inl (JsError ''Error'' ''ENOENT'' ''Error: ENOENT'')),
      import_entry_server = Inr f,
      parse_url = (\<lambda>url. Inr url),
      static_file = (\<lambda>path. None)\<rparr>"

definition example_request :: "http_method \<Rightarrow> string \<Rightarrow> express_request" where
  "example_request m url = \<lparr>req_method = m, originalUrl = url, headers = [], body = []\<rparr>"

definition api_response :: "nat \<Rightarrow> string \<Rightarrow> repos \<Rightarrow> repos fetch_response" where
  "api_response st text d = \<lparr>resp_status = st, statusText = text, resp_json = Inr d\<rparr>"

text \<open>A world whose network answers the first fetch with one response and all later ones with another.\<close>

definition example_world :: "repos fetch_response \<Rightarrow> repos fetch_response \<Rightarrow> repos world" where
  "example_world first later =
     \<lparr>net = (\<lambda>n url. Inr (if n = 0 then first else later)),
      fetched = [],
      clock = 0,
      frames = [],
      NODE_ENV = None,
      toLocaleDateString = (\<lambda>s. s),
      renderToString = (\<lambda>qc tree. ''<main>'' @ textContent tree @ ''</main>'')\<rparr>"

text \<open>A world whose rendering library returns a given markup for every tree.\<close>

definition markup_world :: "string \<Rightarrow> repos world" where
  "markup_world markup =
     (example_world (api_response 200 ''OK'' []) (api_response 200 ''OK'' []))
       \<lparr>renderToString := (\<lambda>qc tree. markup)\<rparr>"

definition failing_platform :: "render_fn \<Rightarrow> platform" where
  "failing_platform f =
     \<lparr>readFileSync = (\<lambda>path. Inl (JsError ''Error'' ''ENOENT'' ''Error: ENOENT'')),
      import_entry_server = Inr f,
      parse_url = (\<lambda>url. Inr url),
      static_file = (\<lambda>path. None)\<rparr>"

definition constant_render :: "string \<Rightarrow> render_fn" where
  "constant_render html = (\<lambda>request. Inr html)"

section \<open>The request dispatcher\<close>

lemma bind_io_simps:
  "bind_io (Inl e, evs) f = (Inl e, evs)"
  "bind_io (Inr x, evs) f = (fst (f x), evs @ snd (f x))"
  by (simp_all add: bind_io_def split: prod.splits)

lemmas example_defs = example_process_def example_platform_def example_request_def constant_render_def
  example_vite_def example_shell_def

lemmas handler_defs = ssr_handler_def select_branch_def prod_branch_def dev_branch_def perform_def returns_def
  bind_io_simps resolve_def new_Request_def request_url_def port_def

lemmas query_defs = loader_def ensureQueryData_def getOrFetch_def getRouter_def userReposQuery_def
  fetch_and_store_def queryFn_def fetch_def example_world_def api_response_def ok_def json_def expired_def




lemma example_processes_started:
  "start (Some ''production'') ''/app'' None createServer = Inr (example_process True None)"
  "start None ''/app'' None (Inr v) = Inr (example_process False (Some v))"
  by (simp_all add: start_def initializeVite_def example_process_def)




lemma select_branch_render_input:
  assumes "Render a \<in> set (snd (select_branch p w url))"
  shows "new_Request w (request_url p url) = Inr a"
proof -
  have prod: "new_Request w (request_url p url) = Inr a"
    if "Render a \<in> set (snd (prod_branch p w url))"
    using that
    by (auto simp: prod_branch_def perform_def returns_def bind_io_def split: sum.splits prod.splits)
  have dev: "new_Request w (request_url p url) = Inr a"
    if "Render a \<in> set (snd (dev_branch p w v url))" for v
    using that
    by (auto simp: dev_branch_def perform_def returns_def bind_io_def split: sum.splits prod.splits)
  show ?thesis
    using assms prod dev by (auto simp: select_branch_def split: option.splits if_splits)
qed

lemma ssr_handler_render_input:
  assumes "Render a \<in> set (snd (ssr_handler p w req))"
  shows "new_Request w (request_url p (originalUrl req)) = Inr a"
proof -
  have "Render a \<in> set (snd (select_branch p w (originalUrl req)))"
    using assms by (auto simp: ssr_handler_def split: prod.splits sum.splits)
  then show ?thesis by (rule select_branch_render_input)
qed

text \<open>
  Claim C9.  Two incoming requests with the same original URL, served by the same process
  (same mode flag and port), hand the render function the same request object, whatever
  their methods, headers and bodies are: the object is built from
  \<open>http://localhost:PORT\<close> followed by the original URL alone, as a GET without headers
  or body.
\<close>

theorem render_input_from_url_alone:
  assumes "originalUrl r1 = originalUrl r2"
    and "parse_url w1 = parse_url w2"
    and "Render a \<in> set (snd (ssr_handler p w1 r1))"
    and "Render b \<in> set (snd (ssr_handler p w2 r2))"
  shows "a = b
       \<and> parse_url w1 (''http://localhost:'' @ port p @ originalUrl r1) = Inr (rq_url a)
       \<and> rq_method a = ''GET'' \<and> rq_headers a = [] \<and> rq_body a = None"
proof -
  have a: "new_Request w1 (request_url p (originalUrl r1)) = Inr a"
    using assms(3) by (rule ssr_handler_render_input)
  have b: "new_Request w2 (request_url p (originalUrl r2)) = Inr b"
    using assms(4) by (rule ssr_handler_render_input)
  have "new_Request w1 (request_url p (originalUrl r1)) = new_Request w2 (request_url p (originalUrl r2))"
    using assms(1,2) by (simp add: new_Request_def)
  then have "a = b" using a b by simp
  moreover have "parse_url w1 (''http://localhost:'' @ port p @ originalUrl r1) = Inr (rq_url a)
       \<and> rq_method a = ''GET'' \<and> rq_headers a = [] \<and> rq_body a = None"
    using a by (auto simp: new_Request_def request_url_def split: sum.splits)
  ultimately show ?thesis by blast
qed

text \<open>
  Witness for C9: a GET and a HEAD request for \<open>/about\<close>, the second with a cookie header
  and a body.
\<close>

theorem render_input_from_url_alone_witness:
  "originalUrl (example_request GET ''/about'')
     = originalUrl \<lparr>req_method = HEAD, originalUrl = ''/about'', headers = [(''cookie'', ''k=1'')], body = ''x''\<rparr>
   \<and> Render \<lparr>rq_url = ''http://localhost:3000/about'', rq_method = ''GET'', rq_headers = [], rq_body = None\<rparr>
       \<in> set (snd (ssr_handler (example_process True None)
                     (example_platform example_shell (constant_render ''<p>hi</p>''))
                     \<lparr>req_method = HEAD, originalUrl = ''/about'', headers = [(''cookie'', ''k=1'')], body = ''x''\<rparr>))"
proof -
  let ?p = "example_process True None"
  let ?w = "example_platform example_shell (constant_render ''<p>hi</p>'')"
  let ?r1 = "example_request GET ''/about''"
  let ?r2 = "\<lparr>req_method = HEAD, originalUrl = ''/about'', headers = [(''cookie'', ''k=1'')], body = ''x''\<rparr>"
  let ?a = "\<lparr>rq_url = ''http://localhost:3000/about'', rq_method = ''GET'', rq_headers = [], rq_body = None\<rparr>"
  have h1: "originalUrl ?r1 = originalUrl ?r2" by (simp add: example_defs)
  have h2: "parse_url ?w = parse_url ?w" by simp
  have h3: "Render ?a \<in> set (snd (ssr_handler ?p ?w ?r1))"
    by (simp add: example_defs handler_defs)
  obtain b where h4: "Render b \<in> set (snd (ssr_handler ?p ?w ?r2))"
    by (simp add: example_defs handler_defs)
  have "?a = b" using render_input_from_url_alone [OF h1 h2 h3 h4] by blast
  then show ?thesis using h1 h4 by simp
qed

text \<open>
  Claim C2 as stated fails: the route is registered with \<open>app.get\<close>, so a POST request
  is not routed to the SSR handler.
\<close>

theorem post_not_routed_counterexample:
  "app (example_process True None) (example_platform example_shell (constant_render ''<p>hi</p>''))
       (example_request POST ''/'') = Unrouted"
  by (simp add: app_def earlier_middleware_def express_static_def route_matches_def
        example_process_def example_platform_def example_request_def)

text \<open>
  Claim C2, amended.  The route matches every path for GET (and HEAD) requests only: such
  a request that no earlier middleware answers is answered by the SSR handler, with status
  200 and \<open>Content-Type: text/html\<close> or with status 500; a request with another verb
  is not routed to the handler.
\<close>

theorem get_route_only:
  assumes "earlier_middleware p w req = None"
  shows "app p w req =
           (if req_method req = GET \<or> req_method req = HEAD
            then BySsrHandler (fst (ssr_handler p w req)) (snd (ssr_handler p w req))
            else Unrouted)
       \<and> (status (fst (ssr_handler p w req)) = 200 \<longrightarrow>
            res_headers (fst (ssr_handler p w req)) = [(''Content-Type'', ''text/html'')])
       \<and> (status (fst (ssr_handler p w req)) = 200 \<or> status (fst (ssr_handler p w req)) = 500)"
  using assms
  by (auto simp: app_def route_matches_def ssr_handler_def split: prod.splits sum.splits)

text \<open>
  Witness for C2 (amended): \<open>GET /\<close> in production with no static file of that name.
\<close>

theorem get_route_only_witness:
  "earlier_middleware (example_process True None)
      (example_platform example_shell (constant_render ''<p>hi</p>'')) (example_request GET ''/'') = None
   \<and> app (example_process True None)
      (example_platform example_shell (constant_render ''<p>hi</p>'')) (example_request GET ''/'')
     = BySsrHandler
         \<lparr>status = 200, res_headers = [(''Content-Type'', ''text/html'')],
          res_body = ''<html><body><div id=root><p>hi</p></div></body></html>''\<rparr>
         [ReadFile ''/app/dist/client/index.html'', ImportModule ''./dist/server/entry-server.js'',
          NewRequest ''http://localhost:3000/'',
          Render \<lparr>rq_url = ''http://localhost:3000/'', rq_method = ''GET'', rq_headers = [], rq_body = None\<rparr>]"
proof -
  let ?p = "example_process True None"
  let ?w = "example_platform example_shell (constant_render ''<p>hi</p>'')"
  let ?r = "example_request GET ''/''"
  have h: "earlier_middleware ?p ?w ?r = None"
    by (simp add: earlier_middleware_def express_static_def example_defs)
  have run: "ssr_handler ?p ?w ?r =
      (\<lparr>status = 200, res_headers = [(''Content-Type'', ''text/html'')],
          res_body = ''<html><body><div id=root><p>hi</p></div></body></html>''\<rparr>,
         [ReadFile ''/app/dist/client/index.html'', ImportModule ''./dist/server/entry-server.js'',
          NewRequest ''http://localhost:3000/'',
          Render \<lparr>rq_url = ''http://localhost:3000/'', rq_method = ''GET'', rq_headers = [], rq_body = None\<rparr>])"
    by (simp add: example_defs handler_defs replace_def placeholder_def)
  have m: "req_method ?r = GET" by (simp add: example_defs)
  show ?thesis using h get_route_only [OF h] m by (simp add: run)
qed

lemma count_reads_append: "count_reads path (xs @ ys) = count_reads path xs + count_reads path ys"
  by (simp add: count_reads_def)

lemma prod_branch_reads_once:
  "count_reads (resolve p ''dist/client/index.html'') (snd (prod_branch p w url)) = 1"
  by (auto simp: prod_branch_def perform_def returns_def bind_io_def count_reads_def
           split: sum.splits prod.splits)

lemma dev_branch_reads_once:
  "count_reads (resolve p ''index.html'') (snd (dev_branch p w v url)) = 1"
  by (auto simp: dev_branch_def perform_def returns_def bind_io_def count_reads_def
           split: sum.splits prod.splits)

lemma dev_branch_transforms:
  "count_transforms (snd (dev_branch p w v url))
     = (case readFileSync w (resolve p ''index.html'') of Inl e \<Rightarrow> 0 | Inr t \<Rightarrow> 1)"
  by (auto simp: dev_branch_def perform_def returns_def bind_io_def count_transforms_def
           split: sum.splits prod.splits)

lemma ssr_handler_reads:
  "count_reads path (snd (ssr_handler p w req)) = count_reads path (snd (select_branch p w (originalUrl req)))"
  by (auto simp: ssr_handler_def count_reads_def split: prod.splits sum.splits)

lemma ssr_handler_reads_prod:
  assumes "isProd p"
  shows "count_reads (resolve p ''dist/client/index.html'') (snd (ssr_handler p w req)) = 1"
  using assms prod_branch_reads_once [of p w "originalUrl req"]
  by (simp add: ssr_handler_reads select_branch_def split: option.splits)

lemma ssr_handler_reads_dev:
  assumes "\<not> isProd p" and "vite p = Some v"
  shows "count_reads (resolve p ''index.html'') (snd (ssr_handler p w req)) = 1"
  using assms dev_branch_reads_once [of p w v "originalUrl req"]
  by (simp add: ssr_handler_reads select_branch_def)

text \<open>
  Claim C3, amended.  In both modes the shell is read from disk once for every request:
  in production the prebuilt dist/client/index.html, in development index.html.  Nothing
  keeps the text between requests.
\<close>

theorem shell_read_per_request:
  "(isProd p \<longrightarrow>
      count_reads (resolve p ''dist/client/index.html'') (concat (map snd (serve p rs))) = length rs)
   \<and> (\<not> isProd p \<and> vite p \<noteq> None \<longrightarrow>
      count_reads (resolve p ''index.html'') (concat (map snd (serve p rs))) = length rs)"
proof (induction rs)
  case Nil
  show ?case by (simp add: count_reads_def)
next
  case (Cons wr rs)
  obtain w req where wr: "wr = (w, req)" by (cases wr)
  show ?case
    using Cons.IH
    by (auto simp: wr count_reads_append ssr_handler_reads_prod ssr_handler_reads_dev)
qed

text \<open>
  Witness for C3 (amended): three production requests, three reads.
\<close>

theorem shell_read_per_request_witness:
  "isProd (example_process True None)
   \<and> count_reads ''/app/dist/client/index.html''
        (concat (map snd (serve (example_process True None)
           [(example_platform example_shell (constant_render ''<p>a</p>''), example_request GET ''/''),
            (example_platform example_shell (constant_render ''<p>a</p>''), example_request GET ''/x''),
            (example_platform example_shell (constant_render ''<p>a</p>''), example_request GET ''/y'')]))) = 3"
proof -
  have h: "isProd (example_process True None)" by (simp add: example_process_def)
  have r: "resolve (example_process True None) ''dist/client/index.html'' = ''/app/dist/client/index.html''"
    by (simp add: resolve_def example_process_def)
  show ?thesis
    using h r shell_read_per_request [of "example_process True None"
      "[(example_platform example_shell (constant_render ''<p>a</p>''), example_request GET ''/''),
        (example_platform example_shell (constant_render ''<p>a</p>''), example_request GET ''/x''),
        (example_platform example_shell (constant_render ''<p>a</p>''), example_request GET ''/y'')]"]
    by simp
qed

text \<open>
  Claim C3 as stated fails: two production requests read the prebuilt shell twice, and a
  shell that changed on disk between them shows in the second response.
\<close>

theorem shell_read_once_counterexample:
  "count_reads ''/app/dist/client/index.html''
     (concat (map snd (serve (example_process True None)
        [(example_platform ''<a><!--app-html--></a>'' (constant_render ''hi''), example_request GET ''/''),
         (example_platform ''<b><!--app-html--></b>'' (constant_render ''hi''), example_request GET ''/'')]))) = 2
   \<and> map (res_body \<circ> fst)
       (serve (example_process True None)
        [(example_platform ''<a><!--app-html--></a>'' (constant_render ''hi''), example_request GET ''/''),
         (example_platform ''<b><!--app-html--></b>'' (constant_render ''hi''), example_request GET ''/'')])
     = [''<a>hi</a>'', ''<b>hi</b>'']"
  by (simp add: example_defs handler_defs replace_def placeholder_def count_reads_def)

section \<open>Strings and the repository query\<close>

lemma starts_with_iff: "starts_with s pat \<longleftrightarrow> (\<exists>t. s = pat @ t)"
  by (induction s pat rule: starts_with.induct) auto

lemma str_includes_iff: "str_includes s pat \<longleftrightarrow> (\<exists>a b. s = a @ pat @ b)"
proof (induction s)
  case Nil
  show ?case by (auto simp: str_includes_def)
next
  case (Cons c cs)
  show ?case
  proof
    assume "str_includes (c # cs) pat"
    then consider "starts_with (c # cs) pat" | "str_includes cs pat"
      by (auto simp: str_includes_def split: if_splits)
    then show "\<exists>a b. c # cs = a @ pat @ b"
    proof cases
      case 1
      then obtain t where "c # cs = pat @ t" by (auto simp: starts_with_iff)
      then have "c # cs = [] @ pat @ t" by simp
      then show ?thesis by blast
    next
      case 2
      then obtain a b where "cs = a @ pat @ b" using Cons.IH by blast
      then have "c # cs = (c # a) @ pat @ b" by simp
      then show ?thesis by blast
    qed
  next
    assume "\<exists>a b. c # cs = a @ pat @ b"
    then obtain a b where ab: "c # cs = a @ pat @ b" by blast
    show "str_includes (c # cs) pat"
    proof (cases a)
      case Nil
      then have "starts_with (c # cs) pat" using ab by (auto simp: starts_with_iff)
      then show ?thesis by (simp add: str_includes_def)
    next
      case (Cons x xs)
      then have "cs = xs @ pat @ b" using ab by simp
      then have "str_includes cs pat" using Cons.IH by blast
      then show ?thesis by (auto simp: str_includes_def)
    qed
  qed
qed

lemma str_includes_mid: "str_includes (a @ pat @ b) pat"
  by (auto simp: str_includes_iff)

lemma show_nat_0: "show_nat 0 = ''0''"
  by (subst show_nat.simps) (simp add: digit_char_def)

lemma not_found_is_not_failed: "not_found_message u \<noteq> failed_message u' text"
  by (simp add: not_found_message_def failed_message_def)

text \<open>
  Claim C6.  When the API answers the fetch with a response, the query function fails
  with the error \<open>User "username" not found\<close> exactly when the status is 404; it fails
  with \<open>Failed to load repos for username: statusText\<close> for every other status outside
  200-299; and it returns data only for a status in 200-299, namely the parsed body.
  The two messages differ, and the first names the user.
\<close>

theorem query_outcomes_by_status:
  assumes "net w (length (fetched w)) (repos_url username) = Inr response"
  shows "(fst (queryFn username w) = Inl (new_Error (frames w) (not_found_message username))
            \<longleftrightarrow> resp_status response = 404)
       \<and> (\<not> ok response \<and> resp_status response \<noteq> 404 \<longrightarrow>
            fst (queryFn username w)
              = Inl (new_Error (frames w) (failed_message username (statusText response))))
       \<and> (ok response \<longrightarrow> fst (queryFn username w) = json response)
       \<and> (\<forall>d. fst (queryFn username w) = Inr d \<longrightarrow> ok response \<and> resp_json response = Inr d)
       \<and> str_includes (not_found_message username) username
       \<and> not_found_message username \<noteq> failed_message username (statusText response)"
proof -
  have run: "queryFn username w =
      (if \<not> ok response then
         if resp_status response = 404
         then (Inl (new_Error (frames w) (not_found_message username)), w\<lparr>fetched := fetched w @ [repos_url username]\<rparr>)
         else (Inl (new_Error (frames w) (failed_message username (statusText response))), w\<lparr>fetched := fetched w @ [repos_url username]\<rparr>)
       else (json response, w\<lparr>fetched := fetched w @ [repos_url username]\<rparr>))"
    using assms by (simp add: queryFn_def fetch_def)
  have nf: "resp_status response = 404 \<Longrightarrow> \<not> ok response" by (simp add: ok_def)
  have js: "json response \<noteq> Inl (new_Error fr (not_found_message username))" for fr
    by (auto simp: json_def new_Error_def split: sum.splits)
  have a: "fst (queryFn username w) = Inl (new_Error (frames w) (not_found_message username))
            \<longleftrightarrow> resp_status response = 404"
    using nf js [of "frames w"] not_found_is_not_failed [of username username "statusText response"]
    by (auto simp: run new_Error_def)
  have b: "\<not> ok response \<and> resp_status response \<noteq> 404 \<longrightarrow>
            fst (queryFn username w)
              = Inl (new_Error (frames w) (failed_message username (statusText response)))"
    by (simp add: run)
  have c: "ok response \<longrightarrow> fst (queryFn username w) = json response"
    by (simp add: run)
  have d: "\<forall>d. fst (queryFn username w) = Inr d \<longrightarrow> ok response \<and> resp_json response = Inr d"
    by (auto simp: run json_def split: if_splits sum.splits)
  have e: "str_includes (not_found_message username) username"
    unfolding not_found_message_def
    using str_includes_mid [of "''User '' @ dq" username "dq @ '' not found''"] by simp
  show ?thesis using a b c d e not_found_is_not_failed by blast
qed

text \<open>
  Witness for C6: the API answers 404 for \<open>doesnotexist123\<close>.
\<close>

theorem query_outcomes_by_status_witness:
  "net (example_world (api_response 404 ''Not Found'' []) (api_response 404 ''Not Found'' []))
       (length (fetched (example_world (api_response 404 ''Not Found'' []) (api_response 404 ''Not Found'' []))))
       (repos_url ''doesnotexist123'') = Inr (api_response 404 ''Not Found'' [])
   \<and> fst (queryFn ''doesnotexist123'' (example_world (api_response 404 ''Not Found'' []) (api_response 404 ''Not Found'' [])))
       = Inl (JsError ''Error'' (''User '' @ dq @ ''doesnotexist123'' @ dq @ '' not found'')
                (''Error: User '' @ dq @ ''doesnotexist123'' @ dq @ '' not found''))"
proof -
  let ?w = "example_world (api_response 404 ''Not Found'' []) (api_response 404 ''Not Found'' [])"
  have h: "net ?w (length (fetched ?w)) (repos_url ''doesnotexist123'') = Inr (api_response 404 ''Not Found'' [])"
    by (simp add: example_world_def)
  have s: "resp_status (api_response 404 ''Not Found'' []) = 404" by (simp add: api_response_def)
  have "fst (queryFn ''doesnotexist123'' ?w) = Inl (new_Error (frames ?w) (not_found_message ''doesnotexist123''))"
    using query_outcomes_by_status [OF h] s by blast
  then show ?thesis
    using h by (simp add: new_Error_def not_found_message_def example_world_def)
qed

section \<open>The query layer and the repositories page\<close>

lemma with_retry_count:
  "with_retry n f w = (r, w', k) \<Longrightarrow> 1 \<le> k \<and> k \<le> Suc n"
proof (induction n arbitrary: w r w' k)
  case 0
  then show ?case by (auto split: prod.splits)
next
  case (Suc n)
  obtain r0 w0 where f: "f w = (r0, w0)" by (cases "f w")
  show ?case
  proof (cases r0)
    case (Inr d)
    then show ?thesis using Suc.prems f by simp
  next
    case (Inl e)
    obtain r1 w1 k1 where rec: "with_retry n f w0 = (r1, w1, k1)" by (cases "with_retry n f w0")
    have "1 \<le> k1 \<and> k1 \<le> Suc n" using Suc.IH [OF rec] .
    moreover have "k = Suc k1" using Suc.prems f Inl rec by simp
    ultimately show ?thesis by simp
  qed
qed

lemma with_retry_first_ok:
  "fst (f w) = Inr d \<Longrightarrow> with_retry n f w = (Inr d, snd (f w), 1)"
  by (cases n; cases "f w") auto

lemma fetch_and_store_ok:
  assumes "fetch_and_store qc key f w = (Inr d, qc', w', k)"
  shows "entries qc' key = Some \<lparr>entry_value = d, updatedAt = clock w', retryCount = k - 1\<rparr>
       \<and> qc' = qc\<lparr>entries := (entries qc)(key \<mapsto> \<lparr>entry_value = d, updatedAt = clock w', retryCount = k - 1\<rparr>)\<rparr>
       \<and> with_retry (retry qc) f w = (Inr d, w', k)"
  using assms by (auto simp: fetch_and_store_def split: prod.splits sum.splits)

lemma getRouter_empty: "entries (queryClient (getRouter ())) key = None"
  by (simp add: getRouter_def)

lemma loader_ok:
  assumes "loader username (getRouter ()) w = (Inr d, r', w')"
  shows "useSuspenseQuery (queryClient r') (userReposQuery username) = Inr d"
proof -
  obtain k where run: "fetch_and_store (queryClient (getRouter ())) [''githubRepos'', username]
                   (queryFn username) w = (Inr d, queryClient r', w', k)"
    using assms
    by (auto simp: loader_def ensureQueryData_def getOrFetch_def getRouter_empty userReposQuery_def
             split: prod.splits)
  show ?thesis
    using fetch_and_store_ok [OF run] by (simp add: useSuspenseQuery_def userReposQuery_def)
qed

lemma handler_repos_ok:
  assumes "match_route (pathname (rq_url request)) = ReposRoute username"
    and "loader username (getRouter ()) w = (Inr d, r', w')"
  shows "handler w request =
           (Inr (renderToString w' (queryClient r')
                   (RootLayout (NODE_ENV w') (ReposPage_view (toLocaleDateString w') username d))), r', w')"
  using assms loader_ok [OF assms(2)]
  by (simp add: handler_def ReposPage_def)

lemma textContent_RootLayout:
  "textContent (RootLayout env page)
     = ''Home'' @ ''TanStack Repos'' @ textContent page @ ''SSR React App with TanStack Router & Query''"
  by (simp add: RootLayout_def)

lemma textContent_empty_repos:
  "textContent (ReposPage_view f username [])
     = ''Repositories of '' @ username @ ''Showing 0 repositories''
       @ ''No public repositories found for this user.''"
  by (simp add: ReposPage_view_def show_nat_0)

lemma no_list_for_empty_repos: "\<not> has_element ''ul'' (ReposPage_view f username [])"
  by (simp add: ReposPage_view_def cls_def)

text \<open>
  Claim C8.  When the request resolves to the repositories route and the loader's query
  for the username resolves to the empty list, the handler renders the root layout around
  the repositories page for the empty list; the text of that page states
  \<open>0 repositories\<close> and the empty-state message, and the page has no list element.
\<close>

theorem empty_repos_page:
  assumes "match_route (pathname (rq_url request)) = ReposRoute username"
    and "loader username (getRouter ()) w = (Inr [], r', w')"
  shows "fst (handler w request)
           = Inr (renderToString w' (queryClient r')
                    (RootLayout (NODE_ENV w') (ReposPage_view (toLocaleDateString w') username [])))
       \<and> str_includes (textContent (RootLayout (NODE_ENV w') (ReposPage_view (toLocaleDateString w') username [])))
            ''0 repositories''
       \<and> str_includes (textContent (RootLayout (NODE_ENV w') (ReposPage_view (toLocaleDateString w') username [])))
            ''No public repositories found for this user.''
       \<and> \<not> has_element ''ul'' (ReposPage_view (toLocaleDateString w') username [])"
proof -
  let ?page = "ReposPage_view (toLocaleDateString w') username []"
  have run: "fst (handler w request)
           = Inr (renderToString w' (queryClient r') (RootLayout (NODE_ENV w') ?page))"
    using handler_repos_ok [OF assms] by simp
  have t: "textContent (RootLayout (NODE_ENV w') ?page)
     = (''HomeTanStack ReposRepositories of '' @ username @ ''Showing '') @ ''0 repositories''
       @ (''No public repositories found for this user.SSR React App with TanStack Router & Query'')"
    by (simp add: textContent_RootLayout textContent_empty_repos)
  have t2: "textContent (RootLayout (NODE_ENV w') ?page)
     = (''HomeTanStack ReposRepositories of '' @ username @ ''Showing 0 repositories'')
       @ ''No public repositories found for this user.''
       @ (''SSR React App with TanStack Router & Query'')"
    by (simp add: textContent_RootLayout textContent_empty_repos)
  have a: "str_includes (textContent (RootLayout (NODE_ENV w') ?page)) ''0 repositories''"
    unfolding t by (rule str_includes_mid)
  have b: "str_includes (textContent (RootLayout (NODE_ENV w') ?page))
             ''No public repositories found for this user.''"
    unfolding t2 by (rule str_includes_mid)
  show ?thesis using run a b no_list_for_empty_repos by blast
qed

text \<open>
  Witness for C8: \<open>/repos/octocat\<close> with the API answering 200 and an empty list.
\<close>

theorem empty_repos_page_witness:
  "match_route (pathname (rq_url \<lparr>rq_url = ''http://localhost:3000/repos/octocat'', rq_method = ''GET'',
                                  rq_headers = [], rq_body = None\<rparr>)) = ReposRoute ''octocat''
   \<and> fst (loader ''octocat'' (getRouter ()) (example_world (api_response 200 ''OK'' []) (api_response 200 ''OK'' []))) = Inr []
   \<and> fst (handler (example_world (api_response 200 ''OK'' []) (api_response 200 ''OK'' []))
            \<lparr>rq_url = ''http://localhost:3000/repos/octocat'', rq_method = ''GET'',
             rq_headers = [], rq_body = None\<rparr>)
       = Inr (''<main>HomeTanStack ReposRepositories of octocatShowing 0 repositories''
              @ ''No public repositories found for this user.SSR React App with TanStack Router & Query</main>'')"
proof -
  let ?w = "example_world (api_response 200 ''OK'' []) (api_response 200 ''OK'' [])"
  let ?rq = "\<lparr>rq_url = ''http://localhost:3000/repos/octocat'', rq_method = ''GET'',
             rq_headers = [], rq_body = None\<rparr>"
  have h1: "match_route (pathname (rq_url ?rq)) = ReposRoute ''octocat''"
    by (simp add: match_route_def pathname_def)
  obtain r' w' where h2: "loader ''octocat'' (getRouter ()) ?w = (Inr [], r', w')"
    by (simp add: loader_def ensureQueryData_def getOrFetch_def getRouter_def userReposQuery_def
         fetch_and_store_def queryFn_def fetch_def example_world_def api_response_def ok_def json_def)
  have rts: "renderToString w' = renderToString ?w"
    using h2
    by (auto simp: loader_def ensureQueryData_def getOrFetch_def getRouter_def userReposQuery_def
         fetch_and_store_def queryFn_def fetch_def example_world_def api_response_def ok_def json_def)
  have "fst (handler ?w ?rq) = Inr (renderToString w' (queryClient r')
                    (RootLayout (NODE_ENV w') (ReposPage_view (toLocaleDateString w') ''octocat'' [])))"
    using empty_repos_page [OF h1 h2] by blast
  then show ?thesis
    using h1 h2
    by (simp add: rts example_world_def textContent_RootLayout textContent_empty_repos)
qed

section \<open>Errors inside the render\<close>

lemma select_branch_result:
  "fst (select_branch p w url) =
     (case shell p w url of
        Inl e \<Rightarrow> Inl e
      | Inr template \<Rightarrow>
          (case render_module p w of
             Inl e \<Rightarrow> Inl e
           | Inr f \<Rightarrow>
               (case new_Request w (request_url p url) of
                  Inl e \<Rightarrow> Inl e
                | Inr rq \<Rightarrow> (case f rq of Inl e \<Rightarrow> Inl e | Inr html \<Rightarrow> Inr (template, html)))))"
  by (simp add: select_branch_def shell_def render_module_def prod_branch_def dev_branch_def
        perform_def returns_def bind_io_simps split: option.splits sum.splits)

lemma ssr_handler_response:
  "fst (ssr_handler p w req) =
     (case fst (select_branch p w (originalUrl req)) of
        Inr (template, appHtml) \<Rightarrow>
          \<lparr>status = 200, res_headers = [(''Content-Type'', ''text/html'')],
           res_body = replace template placeholder appHtml\<rparr>
      | Inl error \<Rightarrow> \<lparr>status = 500, res_headers = [], res_body = error_page (diagnostic error)\<rparr>)"
  by (simp add: ssr_handler_def split: prod.splits sum.splits)

lemma handler_loader_rejects:
  assumes "match_route (pathname (rq_url rq)) = ReposRoute username"
    and "loader username (getRouter ()) w = (Inl e, r', w')"
  shows "handler w rq
           = (Inr (renderToString w' (queryClient r') (RootLayout (NODE_ENV w') (ErrorComponent e))), r', w')"
  using assms by (simp add: handler_def)

lemma handler_resolves: "\<exists>html. fst (handler w rq) = Inr html"
proof (cases "match_route (pathname (rq_url rq))")
  case IndexRoute
  then show ?thesis by (simp add: handler_def Let_def)
next
  case NotFoundRoute
  then show ?thesis by (simp add: handler_def Let_def)
next
  case (ReposRoute username)
  obtain res r' w' where l: "loader username (getRouter ()) w = (res, r', w')"
    by (cases "loader username (getRouter ()) w")
  show ?thesis
  proof (cases res)
    case (Inl e)
    then show ?thesis using handler_loader_rejects [OF ReposRoute, of w e r' w'] l by simp
  next
    case (Inr d)
    then show ?thesis using handler_repos_ok [OF ReposRoute, of w d r' w'] l by simp
  qed
qed

lemma render_is_handler_markup: "fst (handler w rq) = Inr (fst (render w rq))"
  using handler_resolves [of w rq]
  by (auto simp: render_def split: prod.splits sum.splits)

lemma loader_404:
  "loader ''doesnotexist123'' (getRouter ())
      (example_world (api_response 404 ''Not Found'' []) (api_response 404 ''Not Found'' []))
     = (Inl (new_Error [] (not_found_message ''doesnotexist123'')),
        getRouter (),
        (example_world (api_response 404 ''Not Found'' []) (api_response 404 ''Not Found'' []))
          \<lparr>fetched := [repos_url ''doesnotexist123'', repos_url ''doesnotexist123'']\<rparr>)"
  by (simp add: query_defs)

text \<open>
  Claim C1, amended.  With the repository's \<open>render\<close> as the loaded module, \<open>render\<close>
  always returns markup, and whenever the shell is obtained and the request constructed
  the dispatcher substitutes that markup into the shell and answers with status 200.  When
  the loader of the repositories route rejects, the markup is the root layout around the
  router's error component for that error: the handler resolves, so the \<open>catch\<close> block of
  \<open>render\<close> is not entered.  The dispatcher answers 500 exactly when a step outside
  \<open>render\<close> throws: obtaining the shell or constructing the request (loading the module
  is the hypothesis here).
\<close>

theorem loader_rejection_answered_200:
  assumes "render_module p pw = Inr (entry_server w)"
  shows "(\<forall>template rq.
            shell p pw (originalUrl req) = Inr template
            \<and> new_Request pw (request_url p (originalUrl req)) = Inr rq
            \<longrightarrow> fst (ssr_handler p pw req)
                  = \<lparr>status = 200, res_headers = [(''Content-Type'', ''text/html'')],
                     res_body = replace template placeholder (fst (render w rq))\<rparr>)
       \<and> (\<forall>rq username e r' w'.
            match_route (pathname (rq_url rq)) = ReposRoute username
            \<and> loader username (getRouter ()) w = (Inl e, r', w')
            \<longrightarrow> fst (render w rq)
                  = renderToString w' (queryClient r') (RootLayout (NODE_ENV w') (ErrorComponent e)))
       \<and> (\<forall>rq. fst (handler w rq) = Inr (fst (render w rq)))
       \<and> (status (fst (ssr_handler p pw req)) = 500
            \<longleftrightarrow> (\<exists>e. shell p pw (originalUrl req) = Inl e)
                \<or> (\<exists>e. new_Request pw (request_url p (originalUrl req)) = Inl e))"
proof -
  have answered: "fst (ssr_handler p pw req)
                  = \<lparr>status = 200, res_headers = [(''Content-Type'', ''text/html'')],
                     res_body = replace template placeholder (fst (render w rq))\<rparr>"
    if "shell p pw (originalUrl req) = Inr template"
      and "new_Request pw (request_url p (originalUrl req)) = Inr rq"
    for template rq
    using assms that
    by (simp add: ssr_handler_response select_branch_result entry_server_def)
  have markup: "fst (render w rq)
                  = renderToString w' (queryClient r') (RootLayout (NODE_ENV w') (ErrorComponent e))"
    if "match_route (pathname (rq_url rq)) = ReposRoute username"
      and "loader username (getRouter ()) w = (Inl e, r', w')"
    for rq username e r' w'
    using handler_loader_rejects [OF that] render_is_handler_markup [of w rq] by simp
  have status: "status (fst (ssr_handler p pw req)) = 500
            \<longleftrightarrow> (\<exists>e. shell p pw (originalUrl req) = Inl e)
                \<or> (\<exists>e. new_Request pw (request_url p (originalUrl req)) = Inl e)"
    using assms
    by (auto simp: ssr_handler_response select_branch_result entry_server_def split: sum.splits)
  show ?thesis using answered markup render_is_handler_markup status by blast
qed

text \<open>
  Witness for C1 (amended): development mode with a dev server that loads the repository's
  \<open>render\<close>, the API answering 404.
\<close>

theorem loader_rejection_answered_200_witness:
  "render_module (example_process False (Some (example_vite
        (entry_server (example_world (api_response 404 ''Not Found'' []) (api_response 404 ''Not Found'' []))))))
      (example_platform example_shell (constant_render []))
     = Inr (entry_server (example_world (api_response 404 ''Not Found'' []) (api_response 404 ''Not Found'' [])))
   \<and> fst (ssr_handler (example_process False (Some (example_vite
        (entry_server (example_world (api_response 404 ''Not Found'' []) (api_response 404 ''Not Found'' []))))))
      (example_platform example_shell (constant_render []))
      (example_request GET ''/repos/doesnotexist123''))
     = \<lparr>status = 200, res_headers = [(''Content-Type'', ''text/html'')],
        res_body = ''<html><body><div id=root><main>HomeTanStack Repos''
                   @ ''SSR React App with TanStack Router & Query</main></div></body></html>''\<rparr>"
proof -
  let ?w = "example_world (api_response 404 ''Not Found'' []) (api_response 404 ''Not Found'' [])"
  let ?p = "example_process False (Some (example_vite (entry_server ?w)))"
  let ?pw = "example_platform example_shell (constant_render [])"
  let ?req = "example_request GET ''/repos/doesnotexist123''"
  let ?rq = "\<lparr>rq_url = ''http://localhost:3000/repos/doesnotexist123'', rq_method = ''GET'',
             rq_headers = [], rq_body = None\<rparr>"
  have h: "render_module ?p ?pw = Inr (entry_server ?w)"
    by (simp add: render_module_def example_process_def example_vite_def)
  have s: "shell ?p ?pw (originalUrl ?req) = Inr example_shell"
    by (simp add: shell_def example_process_def example_vite_def example_platform_def resolve_def)
  have n: "new_Request ?pw (request_url ?p (originalUrl ?req)) = Inr ?rq"
    by (simp add: new_Request_def request_url_def port_def example_process_def example_platform_def
          example_request_def)
  have m: "match_route (pathname (rq_url ?rq)) = ReposRoute ''doesnotexist123''"
    by (simp add: match_route_def pathname_def)
  note facts = loader_rejection_answered_200 [OF h, of ?req]
  have response: "fst (ssr_handler ?p ?pw ?req)
                  = \<lparr>status = 200, res_headers = [(''Content-Type'', ''text/html'')],
                     res_body = replace example_shell placeholder (fst (render ?w ?rq))\<rparr>"
    using facts s n by blast
  have "fst (render ?w ?rq)
          = renderToString
              (?w\<lparr>fetched := [repos_url ''doesnotexist123'', repos_url ''doesnotexist123'']\<rparr>)
              (queryClient (getRouter ()))
              (RootLayout
                 (NODE_ENV (?w\<lparr>fetched := [repos_url ''doesnotexist123'', repos_url ''doesnotexist123'']\<rparr>))
                 (ErrorComponent (new_Error [] (not_found_message ''doesnotexist123''))))"
    using facts m loader_404 by blast
  then have markup: "fst (render ?w ?rq)
          = ''<main>HomeTanStack ReposSSR React App with TanStack Router & Query</main>''"
    by (simp add: example_world_def textContent_RootLayout ErrorComponent_def)
  show ?thesis
    using h by (simp add: response markup) (simp add: example_shell_def replace_def placeholder_def)
qed

text \<open>
  Claim C1 as stated fails: for \<open>/repos/doesnotexist123\<close> with the API answering 404 the
  loader rejects with the not-found error, and the dispatcher answers with status 200,
  not with status 500.
\<close>

theorem loader_rejection_status_counterexample:
  "fst (loader ''doesnotexist123'' (getRouter ())
          (example_world (api_response 404 ''Not Found'' []) (api_response 404 ''Not Found'' [])))
     = Inl (JsError ''Error'' (''User '' @ dq @ ''doesnotexist123'' @ dq @ '' not found'')
              (''Error: User '' @ dq @ ''doesnotexist123'' @ dq @ '' not found''))
   \<and> status (fst (ssr_handler (example_process True None)
           (example_platform example_shell
              (entry_server (example_world (api_response 404 ''Not Found'' []) (api_response 404 ''Not Found'' []))))
           (example_request GET ''/repos/doesnotexist123''))) = 200"
proof -
  let ?w = "example_world (api_response 404 ''Not Found'' []) (api_response 404 ''Not Found'' [])"
  let ?p = "example_process True None"
  let ?pw = "example_platform example_shell (entry_server ?w)"
  have l: "fst (loader ''doesnotexist123'' (getRouter ()) ?w)
     = Inl (JsError ''Error'' (''User '' @ dq @ ''doesnotexist123'' @ dq @ '' not found'')
              (''Error: User '' @ dq @ ''doesnotexist123'' @ dq @ '' not found''))"
    by (simp add: loader_404 new_Error_def not_found_message_def)
  have "\<exists>html. fst (select_branch ?p ?pw ''/repos/doesnotexist123'') = Inr (example_shell, html)"
    by (simp add: select_branch_result shell_def render_module_def example_process_def
          example_platform_def resolve_def new_Request_def request_url_def port_def entry_server_def)
  then have "status (fst (ssr_handler ?p ?pw (example_request GET ''/repos/doesnotexist123''))) = 200"
    by (auto simp: ssr_handler_response example_request_def)
  then show ?thesis using l by simp
qed

section \<open>Cache isolation and reuse\<close>

lemma queryFn_world:
  "snd (queryFn u w) = w\<lparr>fetched := fetched w @ [repos_url u]\<rparr>"
  by (auto simp: queryFn_def fetch_def split: sum.splits)

lemma loader_world_first_ok:
  assumes "fst (queryFn u w) = Inr d"
  shows "snd (snd (loader u (getRouter ()) w)) = snd (queryFn u w)"
  using with_retry_first_ok [of "queryFn u" w d "Suc 0"] assms
  by (simp add: loader_def ensureQueryData_def getOrFetch_def getRouter_def userReposQuery_def
        fetch_and_store_def)

lemma with_retry_fetched:
  "with_retry n (queryFn u) w = (res, w', k)
     \<Longrightarrow> w' = w\<lparr>fetched := fetched w @ replicate k (repos_url u)\<rparr>"
proof (induction n arbitrary: w res w' k)
  case 0
  then show ?case
    using queryFn_world [of u w] by (auto split: prod.splits)
next
  case (Suc n)
  obtain r0 w0 where f: "queryFn u w = (r0, w0)" by (cases "queryFn u w")
  have w0: "w0 = w\<lparr>fetched := fetched w @ [repos_url u]\<rparr>"
    using queryFn_world [of u w] f by simp
  show ?case
  proof (cases r0)
    case (Inr d)
    then have "w' = w0" "k = 1" using Suc.prems f by simp_all
    then show ?thesis using w0 by simp
  next
    case (Inl e)
    obtain r1 w1 k1 where rec: "with_retry n (queryFn u) w0 = (r1, w1, k1)"
      by (cases "with_retry n (queryFn u) w0")
    have "w1 = w0\<lparr>fetched := fetched w0 @ replicate k1 (repos_url u)\<rparr>"
      using Suc.IH [OF rec] .
    moreover have "k = Suc k1" "w' = w1" using Suc.prems f Inl rec by simp_all
    ultimately show ?thesis using w0 by (simp add: replicate_app_Cons_same)
  qed
qed

lemma loader_fetches:
  assumes "loader u (getRouter ()) w = (res, r', w')"
  shows "\<exists>k. with_retry 1 (queryFn u) w = (res, w', k)
           \<and> 1 \<le> k \<and> k \<le> 2
           \<and> queryClient r' =
               (case res of
                  Inl e \<Rightarrow> queryClient (getRouter ())
                | Inr d \<Rightarrow>
                    (queryClient (getRouter ()))
                      \<lparr>entries := (\<lambda>key. None)([''githubRepos'', u]
                         \<mapsto> \<lparr>entry_value = d, updatedAt = clock w', retryCount = k - 1\<rparr>)\<rparr>)"
proof -
  obtain r0 w0 k where run: "with_retry 1 (queryFn u) w = (r0, w0, k)"
    by (cases "with_retry 1 (queryFn u) w")
  have count: "1 \<le> k \<and> k \<le> 2" using with_retry_count [OF run] by simp
  have "res = r0 \<and> w' = w0 \<and> queryClient r' =
               (case res of
                  Inl e \<Rightarrow> queryClient (getRouter ())
                | Inr d \<Rightarrow>
                    (queryClient (getRouter ()))
                      \<lparr>entries := (\<lambda>key. None)([''githubRepos'', u]
                         \<mapsto> \<lparr>entry_value = d, updatedAt = clock w', retryCount = k - 1\<rparr>)\<rparr>)"
    using assms run
    by (auto simp: loader_def ensureQueryData_def getOrFetch_def getRouter_def userReposQuery_def
          fetch_and_store_def split: sum.splits)
  then show ?thesis using run count by blast
qed

lemma handler_state:
  "snd (handler w rq) =
     (case match_route (pathname (rq_url rq)) of
        ReposRoute u \<Rightarrow> snd (loader u (getRouter ()) w)
      | IndexRoute \<Rightarrow> (getRouter (), w)
      | NotFoundRoute \<Rightarrow> (getRouter (), w))"
  by (auto simp: handler_def Let_def split: route_match.splits prod.splits sum.splits)

lemma render_world: "snd (render w rq) = snd (snd (handler w rq))"
  by (auto simp: render_def split: prod.splits sum.splits)

lemma loader_of_fetch:
  assumes "with_retry 1 (queryFn u) w = (Inr d, w', k)"
  shows "\<exists>r'. loader u (getRouter ()) w = (Inr d, r', w')"
  using assms
  by (simp add: loader_def ensureQueryData_def getOrFetch_def getRouter_def userReposQuery_def
        fetch_and_store_def)

text \<open>
  Claim C4.  The query client \<open>getRouter\<close> constructs has no entries, and every request
  is handled with a router from its own call of \<open>getRouter\<close>.  So every entry a request's
  client holds when the request is done was fetched while serving that request, the
  repositories page shows the data of the request's own fetch, and a second request for a
  repositories page fetches again whatever the first request cached, also within the
  staleness window.
\<close>

theorem fresh_cache_per_request:
  "entries (queryClient (getRouter () :: repos router)) = (\<lambda>key. None)
   \<and> (\<forall>key e. entries (queryClient (fst (snd (handler w rq)))) key = Some e \<longrightarrow>
         (\<exists>u k. match_route (pathname (rq_url rq)) = ReposRoute u
                \<and> key = [''githubRepos'', u]
                \<and> 1 \<le> k
                \<and> with_retry 1 (queryFn u) w = (Inr (entry_value e), snd (snd (handler w rq)), k)))
   \<and> (\<forall>u d w' k. match_route (pathname (rq_url rq)) = ReposRoute u
                \<and> with_retry 1 (queryFn u) w = (Inr d, w', k) \<longrightarrow>
         (\<exists>qc. fst (handler w rq)
                 = Inr (renderToString w' qc
                          (RootLayout (NODE_ENV w') (ReposPage_view (toLocaleDateString w') u d)))))
   \<and> (\<forall>u. match_route (pathname (rq_url rq2)) = ReposRoute u \<longrightarrow>
         (\<exists>k. 1 \<le> k \<and> k \<le> 2
              \<and> fetched (snd (render (snd (render w rq)) rq2))
                  = fetched (snd (render w rq)) @ replicate k (repos_url u)))
   \<and> snd (render w rq) = snd (snd (handler w rq))
   \<and> fst (handler w rq) = Inr (fst (render w rq))"
proof -
  have empty: "entries (queryClient (getRouter () :: repos router)) = (\<lambda>key. None)"
    by (simp add: getRouter_def)
  have own: "\<exists>u k. match_route (pathname (rq_url rq)) = ReposRoute u
                \<and> key = [''githubRepos'', u]
                \<and> 1 \<le> k
                \<and> with_retry 1 (queryFn u) w = (Inr (entry_value e), snd (snd (handler w rq)), k)"
    if e: "entries (queryClient (fst (snd (handler w rq)))) key = Some e" for key e
  proof (cases "match_route (pathname (rq_url rq))")
    case IndexRoute
    then show ?thesis using e by (simp add: handler_state getRouter_def)
  next
    case NotFoundRoute
    then show ?thesis using e by (simp add: handler_state getRouter_def)
  next
    case (ReposRoute u)
    obtain res r' w' where l: "loader u (getRouter ()) w = (res, r', w')"
      by (cases "loader u (getRouter ()) w")
    obtain k where run: "with_retry 1 (queryFn u) w = (res, w', k)" and k: "1 \<le> k"
      and qc: "queryClient r' =
               (case res of
                  Inl e \<Rightarrow> queryClient (getRouter ())
                | Inr d \<Rightarrow>
                    (queryClient (getRouter ()))
                      \<lparr>entries := (\<lambda>key. None)([''githubRepos'', u]
                         \<mapsto> \<lparr>entry_value = d, updatedAt = clock w', retryCount = k - 1\<rparr>)\<rparr>)"
      using loader_fetches [OF l] by blast
    have state: "snd (handler w rq) = (r', w')"
      using ReposRoute l by (simp add: handler_state)
    have e': "entries (queryClient r') key = Some e" using e state by simp
    show ?thesis
    proof (cases res)
      case (Inl x)
      then show ?thesis using e' qc by (simp add: getRouter_def)
    next
      case (Inr d)
      then have "key = [''githubRepos'', u] \<and> entry_value e = d"
        using e' qc by (auto simp: getRouter_def split: if_splits)
      then show ?thesis using ReposRoute run k Inr state by auto
    qed
  qed
  have shown: "\<exists>qc. fst (handler w rq)
                 = Inr (renderToString w' qc
                          (RootLayout (NODE_ENV w') (ReposPage_view (toLocaleDateString w') u d)))"
    if m: "match_route (pathname (rq_url rq)) = ReposRoute u"
      and run: "with_retry 1 (queryFn u) w = (Inr d, w', k)" for u d w' k
  proof -
    obtain r' where "loader u (getRouter ()) w = (Inr d, r', w')"
      using loader_of_fetch [OF run] by blast
    then show ?thesis using handler_repos_ok [OF m] by auto
  qed
  have again: "\<exists>k. 1 \<le> k \<and> k \<le> 2
              \<and> fetched (snd (render (snd (render w rq)) rq2))
                  = fetched (snd (render w rq)) @ replicate k (repos_url u)"
    if m: "match_route (pathname (rq_url rq2)) = ReposRoute u" for u
  proof -
    let ?w1 = "snd (render w rq)"
    obtain res r' w' where l: "loader u (getRouter ()) ?w1 = (res, r', w')"
      by (cases "loader u (getRouter ()) ?w1")
    obtain k where run: "with_retry 1 (queryFn u) ?w1 = (res, w', k)" and k: "1 \<le> k" "k \<le> 2"
      using loader_fetches [OF l] by blast
    have "snd (render ?w1 rq2) = w'"
      using m l by (simp add: render_world handler_state)
    then show ?thesis using with_retry_fetched [OF run] k by auto
  qed
  show ?thesis
    using empty own shown again render_world [of w rq] render_is_handler_markup [of w rq] by blast
qed

text \<open>
  Witness for C4: the same repositories page requested twice; each render fetches.
\<close>

theorem fresh_cache_per_request_witness:
  "match_route (pathname (rq_url \<lparr>rq_url = ''http://localhost:3000/repos/octocat'', rq_method = ''GET'',
                                  rq_headers = [], rq_body = None\<rparr>)) = ReposRoute ''octocat''
   \<and> fetched (snd (render (example_world (api_response 200 ''OK'' []) (api_response 200 ''OK'' []))
        \<lparr>rq_url = ''http://localhost:3000/repos/octocat'', rq_method = ''GET'', rq_headers = [], rq_body = None\<rparr>))
     = [repos_url ''octocat'']
   \<and> fetched (snd (render
        (snd (render (example_world (api_response 200 ''OK'' []) (api_response 200 ''OK'' []))
          \<lparr>rq_url = ''http://localhost:3000/repos/octocat'', rq_method = ''GET'', rq_headers = [], rq_body = None\<rparr>))
        \<lparr>rq_url = ''http://localhost:3000/repos/octocat'', rq_method = ''GET'', rq_headers = [], rq_body = None\<rparr>))
     = [repos_url ''octocat'', repos_url ''octocat'']"
proof -
  let ?w = "example_world (api_response 200 ''OK'' []) (api_response 200 ''OK'' [])"
  let ?rq = "\<lparr>rq_url = ''http://localhost:3000/repos/octocat'', rq_method = ''GET'', rq_headers = [], rq_body = None\<rparr>"
  let ?w1 = "snd (render ?w ?rq)"
  have m: "match_route (pathname (rq_url ?rq)) = ReposRoute ''octocat''"
    by (simp add: match_route_def pathname_def)
  have q: "fst (queryFn ''octocat'' ?w) = Inr []"
    by (simp add: queryFn_def fetch_def example_world_def api_response_def ok_def json_def)
  have "?w1 = snd (snd (handler ?w ?rq))"
    using fresh_cache_per_request [of ?w ?rq ?rq] by blast
  then have w1: "?w1 = ?w\<lparr>fetched := [repos_url ''octocat'']\<rparr>"
    using m loader_world_first_ok [OF q]
    by (simp add: handler_state queryFn_world) (simp add: example_world_def)
  have q1: "fst (queryFn ''octocat'' (?w\<lparr>fetched := [repos_url ''octocat'']\<rparr>)) = Inr []"
    by (simp add: queryFn_def fetch_def example_world_def api_response_def ok_def json_def)
  let ?w1' = "?w\<lparr>fetched := [repos_url ''octocat'']\<rparr>"
  have "snd (render ?w1' ?rq) = snd (queryFn ''octocat'' ?w1')"
    using m loader_world_first_ok [OF q1]
    by (simp add: render_world handler_state)
  then have two: "fetched (snd (render ?w1' ?rq)) = [repos_url ''octocat'', repos_url ''octocat'']"
    by (simp add: queryFn_world)
  show ?thesis unfolding w1 using m two by simp
qed

lemma getOrFetch_fresh_hit:
  assumes "entries qc key = Some e" and "\<not> expired (clock w) st e"
  shows "getOrFetch qc key f st w = (Inr (entry_value e), qc, w, 0)"
  using assms by (simp add: getOrFetch_def)

lemma getOrFetch_miss:
  assumes "\<forall>e. entries qc key = Some e \<longrightarrow> expired (clock w) st e"
  shows "getOrFetch qc key f st w = fetch_and_store qc key f w"
  using assms by (auto simp: getOrFetch_def split: option.splits)

text \<open>
  Claim C5, amended.  When a call of get-or-fetch had to fetch and returned a value, a
  second call for the same key within the staleness window of that value returns the
  cached value and does not invoke the fetch function.  The first call invoked the fetch
  function once if its first attempt succeeded, and otherwise once more for every retry:
  at most \<open>1 + retry\<close> times.
\<close>

theorem second_call_served_from_cache:
  assumes first: "getOrFetch qc key fetchFn staleTimeMs w = (Inr v, qc1, w1, k1)"
    and miss: "\<forall>e. entries qc key = Some e \<longrightarrow> expired (clock w) staleTimeMs e"
    and window: "clock w2 < clock w1 + staleTimeMs"
  shows "getOrFetch qc1 key fetchFn' staleTimeMs w2 = (Inr v, qc1, w2, 0)
       \<and> 1 \<le> k1 \<and> k1 \<le> 1 + retry qc
       \<and> ((\<exists>d. fst (fetchFn w) = Inr d) \<longrightarrow> k1 = 1)"
proof -
  have store: "fetch_and_store qc key fetchFn w = (Inr v, qc1, w1, k1)"
    using first getOrFetch_miss [OF miss] by simp
  note ok = fetch_and_store_ok [OF store]
  let ?e = "\<lparr>entry_value = v, updatedAt = clock w1, retryCount = k1 - 1\<rparr>"
  have e: "entries qc1 key = Some ?e" using ok by blast
  have fresh: "\<not> expired (clock w2) staleTimeMs ?e"
    using window by (simp add: expired_def)
  have hit: "getOrFetch qc1 key fetchFn' staleTimeMs w2 = (Inr v, qc1, w2, 0)"
    using getOrFetch_fresh_hit [OF e fresh] by simp
  have run: "with_retry (retry qc) fetchFn w = (Inr v, w1, k1)" using ok by blast
  have count: "1 \<le> k1 \<and> k1 \<le> 1 + retry qc"
    using with_retry_count [OF run] by simp
  have once: "k1 = 1" if "fst (fetchFn w) = Inr d" for d
    using with_retry_first_ok [of fetchFn w d "retry qc"] that run by simp
  show ?thesis using hit count once by blast
qed

text \<open>
  Witness for C5 (amended): the loader's query for \<open>octocat\<close>, asked again 299999 ms later.
\<close>

theorem second_call_served_from_cache_witness:
  "ensureQueryData (queryClient (getRouter ())) (userReposQuery ''octocat'')
      (example_world (api_response 200 ''OK'' []) (api_response 200 ''OK'' []))
     = (Inr [],
        (queryClient (getRouter ()))
          \<lparr>entries := (\<lambda>key. None)([''githubRepos'', ''octocat'']
                        \<mapsto> \<lparr>entry_value = [], updatedAt = 0, retryCount = 0\<rparr>)\<rparr>,
        (example_world (api_response 200 ''OK'' []) (api_response 200 ''OK'' []))
          \<lparr>fetched := [repos_url ''octocat'']\<rparr>,
        1)
   \<and> ensureQueryData
        ((queryClient (getRouter ()))
          \<lparr>entries := (\<lambda>key. None)([''githubRepos'', ''octocat'']
                        \<mapsto> \<lparr>entry_value = [], updatedAt = 0, retryCount = 0\<rparr>)\<rparr>)
        (userReposQuery ''octocat'')
        ((example_world (api_response 200 ''OK'' []) (api_response 200 ''OK'' []))
          \<lparr>fetched := [repos_url ''octocat''], clock := 299999\<rparr>)
     = (Inr [],
        (queryClient (getRouter ()))
          \<lparr>entries := (\<lambda>key. None)([''githubRepos'', ''octocat'']
                        \<mapsto> \<lparr>entry_value = [], updatedAt = 0, retryCount = 0\<rparr>)\<rparr>,
        (example_world (api_response 200 ''OK'' []) (api_response 200 ''OK'' []))
          \<lparr>fetched := [repos_url ''octocat''], clock := 299999\<rparr>,
        0)"
proof -
  let ?w = "example_world (api_response 200 ''OK'' []) (api_response 200 ''OK'' [])"
  let ?qc = "queryClient (getRouter ()) :: repos QueryClient"
  let ?qc1 = "?qc\<lparr>entries := (\<lambda>key. None)([''githubRepos'', ''octocat'']
                        \<mapsto> \<lparr>entry_value = [], updatedAt = 0, retryCount = 0\<rparr>)\<rparr>"
  let ?w1 = "?w\<lparr>fetched := [repos_url ''octocat'']\<rparr>"
  let ?w2 = "?w\<lparr>fetched := [repos_url ''octocat''], clock := 299999\<rparr>"
  have first: "getOrFetch ?qc [''githubRepos'', ''octocat''] (queryFn ''octocat'') (1000 * 60 * 5) ?w
                 = (Inr [], ?qc1, ?w1, 1)"
    by (simp add: query_defs)
  have miss: "\<forall>e. entries ?qc [''githubRepos'', ''octocat''] = Some e
                \<longrightarrow> expired (clock ?w) (1000 * 60 * 5) e"
    by (simp add: getRouter_def)
  have window: "clock ?w2 < clock ?w1 + 1000 * 60 * 5"
    by (simp add: example_world_def)
  have "getOrFetch ?qc1 [''githubRepos'', ''octocat''] (queryFn ''octocat'') (1000 * 60 * 5) ?w2
          = (Inr [], ?qc1, ?w2, 0)"
    using second_call_served_from_cache [OF first miss window] by blast
  then show ?thesis
    using first by (simp add: ensureQueryData_def userReposQuery_def)
qed

text \<open>
  Claim C5 as stated fails: with \<open>retry: 1\<close>, a first attempt answered with status 500
  and a retry answered with status 200 make two invocations of the fetch function in the
  first call; the second call makes none.
\<close>

theorem retried_fetch_counterexample:
  "fst (ensureQueryData (queryClient (getRouter ())) (userReposQuery ''octocat'')
          (example_world (api_response 500 ''Internal Server Error'' []) (api_response 200 ''OK'' [])))
     = Inr []
   \<and> snd (snd (snd (ensureQueryData (queryClient (getRouter ())) (userReposQuery ''octocat'')
          (example_world (api_response 500 ''Internal Server Error'' []) (api_response 200 ''OK'' [])))))
     = 2
   \<and> fetched (fst (snd (snd (ensureQueryData (queryClient (getRouter ())) (userReposQuery ''octocat'')
          (example_world (api_response 500 ''Internal Server Error'' []) (api_response 200 ''OK'' []))))))
     = [repos_url ''octocat'', repos_url ''octocat'']
   \<and> snd (snd (snd (ensureQueryData
        (fst (snd (ensureQueryData (queryClient (getRouter ())) (userReposQuery ''octocat'')
          (example_world (api_response 500 ''Internal Server Error'' []) (api_response 200 ''OK'' [])))))
        (userReposQuery ''octocat'')
        (fst (snd (snd (ensureQueryData (queryClient (getRouter ())) (userReposQuery ''octocat'')
          (example_world (api_response 500 ''Internal Server Error'' []) (api_response 200 ''OK'' [])))))))))
     = 0"
proof -
  let ?w = "example_world (api_response 500 ''Internal Server Error'' []) (api_response 200 ''OK'' [])"
  let ?qc = "queryClient (getRouter ()) :: repos QueryClient"
  have first: "ensureQueryData ?qc (userReposQuery ''octocat'') ?w
      = (Inr [],
         ?qc\<lparr>entries := (\<lambda>key. None)([''githubRepos'', ''octocat'']
                        \<mapsto> \<lparr>entry_value = [], updatedAt = 0, retryCount = 1\<rparr>)\<rparr>,
         ?w\<lparr>fetched := [repos_url ''octocat'', repos_url ''octocat'']\<rparr>, 2)"
    by (simp add: query_defs)
  show ?thesis
    unfolding first by (simp add: query_defs)
qed

section \<open>Substitution into the shell\<close>

lemma GetSubstitution_plain:
  "plain_replacement r \<Longrightarrow> GetSubstitution matched str position r = r"
  by (induction r rule: plain_replacement.induct) auto

lemma StringIndexOf_split:
  "StringIndexOf s pat = Some i \<Longrightarrow> s = take i s @ pat @ drop (i + length pat) s"
proof (induction s arbitrary: i)
  case Nil
  then show ?case by (auto split: if_splits)
next
  case (Cons c cs)
  show ?case
  proof (cases "starts_with (c # cs) pat")
    case True
    then obtain t where "c # cs = pat @ t" by (auto simp: starts_with_iff)
    moreover have "i = 0" using Cons.prems True by simp
    ultimately show ?thesis by simp
  next
    case False
    then obtain j where j: "StringIndexOf cs pat = Some j" and i: "i = Suc j"
      using Cons.prems by auto
    have "cs = take j cs @ pat @ drop (j + length pat) cs" using Cons.IH [OF j] .
    then show ?thesis using i by simp
  qed
qed

lemma StringIndexOf_first:
  "StringIndexOf s pat = Some i \<Longrightarrow> s = a @ pat @ b \<Longrightarrow> i \<le> length a"
proof (induction s arbitrary: i a)
  case Nil
  then show ?case by (auto split: if_splits)
next
  case (Cons c cs)
  show ?case
  proof (cases "starts_with (c # cs) pat")
    case True
    then have "i = 0" using Cons.prems(1) by simp
    then show ?thesis by simp
  next
    case False
    then obtain j where j: "StringIndexOf cs pat = Some j" and i: "i = Suc j"
      using Cons.prems(1) by auto
    have "a \<noteq> []"
    proof
      assume "a = []"
      then have "starts_with (c # cs) pat" using Cons.prems(2) by (auto simp: starts_with_iff)
      then show False using False by simp
    qed
    then obtain a' where a: "a = c # a'" and cs: "cs = a' @ pat @ b"
      using Cons.prems(2) by (cases a) auto
    have "j \<le> length a'" using Cons.IH [OF j cs] .
    then show ?thesis using i a by simp
  qed
qed

lemma no_occurrence_before_first:
  assumes "StringIndexOf s pat = Some i" and "pat \<noteq> []"
  shows "\<not> str_includes (take i s) pat"
proof
  assume "str_includes (take i s) pat"
  then obtain a b where ab: "take i s = a @ pat @ b" by (auto simp: str_includes_iff)
  have "s = take i s @ drop i s" by simp
  then have "s = a @ pat @ (b @ drop i s)" using ab by simp
  then have "i \<le> length a" using StringIndexOf_first [OF assms(1)] by blast
  moreover have "length (take i s) = length a + length pat + length b" using ab by simp
  moreover have "length (take i s) \<le> i" by simp
  moreover have "0 < length pat" using assms(2) by simp
  ultimately show False by linarith
qed

lemma append_eq_cases:
  assumes "xs @ ys = zs @ ts"
  obtains (left) us where "xs = zs @ us" and "us @ ys = ts"
        | (right) us where "xs @ us = zs" and "ys = us @ ts"
  using assms by (auto simp: append_eq_append_conv2)

lemma no_token_after_substitution:
  assumes pre: "\<not> str_includes pre tok"
    and frag: "\<not> str_includes frag tok"
    and post: "\<not> str_includes post tok"
    and first: "frag = c # f"
    and c: "c \<notin> set (tl tok)"
    and l: "last frag \<notin> set (butlast tok)"
  shows "\<not> str_includes (pre @ frag @ post) tok"
proof
  assume "str_includes (pre @ frag @ post) tok"
  then obtain a b where ab: "pre @ frag @ post = a @ tok @ b" by (auto simp: str_includes_iff)
  then consider (A) us where "pre = a @ us" "us @ frag @ post = tok @ b"
    | (B) us where "pre @ us = a" "frag @ post = us @ tok @ b"
    by (rule append_eq_cases)
  then show False
  proof cases
    case A
    from A(2) consider (A1) vs where "us = tok @ vs"
      | (A2) vs where "us @ vs = tok" "frag @ post = vs @ b"
      by (rule append_eq_cases)
    then show False
    proof cases
      case A1
      have "str_includes pre tok" using str_includes_mid [of a tok vs] A(1) A1 by simp
      then show False using pre by simp
    next
      case A2
      show False
      proof (cases "vs = []")
        case True
        have "str_includes pre tok" using str_includes_mid [of a tok "[]"] A(1) A2(1) True by simp
        then show False using pre by simp
      next
        case False
        then obtain v vs' where vs: "vs = v # vs'" by (cases vs) auto
        have v: "v = c" using A2(2) first vs by simp
        show False
        proof (cases "us = []")
          case True
          then have "frag @ post = tok @ b" using A2 by simp
          then consider (F) ws where "frag = tok @ ws" | (G) ws where "frag @ ws = tok" "post = ws @ b"
            by (rule append_eq_cases)
          then show False
          proof cases
            case F
            have "str_includes frag tok" using str_includes_mid [of "[]" tok ws] F by simp
            then show False using frag by simp
          next
            case G
            show False
            proof (cases "ws = []")
              case True
              have "str_includes frag tok" using str_includes_mid [of "[]" tok "[]"] G(1) True by simp
              then show False using frag by simp
            next
              case False
              then have "butlast tok = frag @ butlast ws" using G(1) by (auto simp: butlast_append)
              moreover have "last frag \<in> set frag" using first by simp
              ultimately show False using l by simp
            qed
          qed
        next
          case False
          then have "tl tok = tl us @ vs" using A2(1) by auto
          then have "c \<in> set (tl tok)" using vs v by simp
          then show False using c by simp
        qed
      qed
    qed
  next
    case B
    from B(2) consider (B1) vs where "frag = us @ vs" "vs @ post = tok @ b"
      | (B2) vs where "frag @ vs = us" "post = vs @ tok @ b"
      by (rule append_eq_cases)
    then show False
    proof cases
      case B2
      have "str_includes post tok" using str_includes_mid [of vs tok b] B2(2) by simp
      then show False using post by simp
    next
      case B1
      from B1(2) consider (B1a) ws where "vs = tok @ ws"
        | (B1b) ws where "vs @ ws = tok" "post = ws @ b"
        by (rule append_eq_cases)
      then show False
      proof cases
        case B1a
        have "str_includes frag tok" using str_includes_mid [of us tok ws] B1(1) B1a by simp
        then show False using frag by simp
      next
        case B1b
        show False
        proof (cases "vs = []")
          case True
          have "str_includes post tok" using str_includes_mid [of "[]" tok b] B1b True by simp
          then show False using post by simp
        next
          case vs: False
          show False
          proof (cases "ws = []")
            case True
            have "str_includes frag tok" using str_includes_mid [of us tok "[]"] B1(1) B1b(1) True by simp
            then show False using frag by simp
          next
            case False
            then have "butlast tok = vs @ butlast ws" using B1b(1) by (auto simp: butlast_append)
            moreover have "last frag = last vs" using B1(1) vs by simp
            moreover have "last vs \<in> set vs" using vs by simp
            ultimately show False using l by simp
          qed
        qed
      qed
    qed
  qed
qed

lemma replace_plain:
  assumes "StringIndexOf template tok = Some i" and "plain_replacement frag"
  shows "replace template tok frag = take i template @ frag @ drop (i + length tok) template"
  using assms by (simp add: replace_def GetSubstitution_plain)

lemma placeholder_shape:
  "placeholder \<noteq> []" "CHR ''<'' \<notin> set (tl placeholder)" "CHR ''>'' \<notin> set (butlast placeholder)"
  by (simp_all add: placeholder_def)

lemma handler_index:
  assumes "match_route (pathname (rq_url rq)) = IndexRoute"
  shows "fst (handler w rq)
           = Inr (renderToString w (queryClient (getRouter ())) (RootLayout (NODE_ENV w) HomePage))"
  using assms by (simp add: handler_def Let_def)

lemma render_index:
  assumes "match_route (pathname (rq_url rq)) = IndexRoute"
  shows "fst (render w rq)
           = renderToString w (queryClient (getRouter ())) (RootLayout (NODE_ENV w) HomePage)"
  using handler_index [OF assms, of w]
  by (auto simp: render_def split: prod.splits sum.splits)

text \<open>
  Claim C7, amended.  For a request that resolves to the static route \<open>/\<close>, served with the
  repository's \<open>render\<close>: when the shell is obtained and contains the placeholder token
  once, and the markup the rendering library produces for the home page is delimited by
  tags, contains no token and no dollar replacement pattern, the dispatcher answers with
  status 200, the document is the shell with the markup in the place of the token, and
  the token does not occur in the document.
\<close>

theorem static_route_document:
  assumes shell: "shell p pw (originalUrl req) = Inr template"
    and loaded: "render_module p pw = Inr (entry_server w)"
    and request: "new_Request pw (request_url p (originalUrl req)) = Inr rq"
    and route: "match_route (pathname (rq_url rq)) = IndexRoute"
    and token: "StringIndexOf template placeholder = Some i"
    and once: "\<not> str_includes (drop (i + length placeholder) template) placeholder"
    and frag: "frag = renderToString w (queryClient (getRouter ())) (RootLayout (NODE_ENV w) HomePage)"
    and plain: "plain_replacement frag"
    and clean: "\<not> str_includes frag placeholder"
    and delimited: "tag_delimited frag"
  shows "fst (ssr_handler p pw req)
           = \<lparr>status = 200, res_headers = [(''Content-Type'', ''text/html'')],
              res_body = take i template @ frag @ drop (i + length placeholder) template\<rparr>
       \<and> \<not> str_includes (res_body (fst (ssr_handler p pw req))) placeholder"
proof -
  have html: "fst (render w rq) = frag"
    using render_index [OF route] frag by simp
  have sel: "fst (select_branch p pw (originalUrl req)) = Inr (template, frag)"
    using shell loaded request html by (simp add: select_branch_result entry_server_def)
  have response: "fst (ssr_handler p pw req)
           = \<lparr>status = 200, res_headers = [(''Content-Type'', ''text/html'')],
              res_body = take i template @ frag @ drop (i + length placeholder) template\<rparr>"
    by (simp add: ssr_handler_response sel replace_plain [OF token plain])
  obtain c f where first: "frag = c # f" and c: "c = CHR ''<''" and l: "last frag = CHR ''>''"
    using delimited by (auto simp: tag_delimited_def split: list.splits)
  have pre: "\<not> str_includes (take i template) placeholder"
    using no_occurrence_before_first [OF token placeholder_shape(1)] .
  have "\<not> str_includes (take i template @ frag @ drop (i + length placeholder) template) placeholder"
    using pre clean once first
  proof (rule no_token_after_substitution)
    show "c \<notin> set (tl placeholder)" using c placeholder_shape(2) by simp
    show "last frag \<notin> set (butlast placeholder)" using l placeholder_shape(3) by simp
  qed
  then show ?thesis using response by simp
qed

lemma textContent_HomePage:
  "textContent HomePage =
     ''Welcome to the SSR React App!''
     @ ''This is a server-side rendered React application built with:''
     @ ''React 18 with TypeScript''
     @ ''TanStack Router for type-safe routing''
     @ ''TanStack Query for data fetching and caching''
     @ ''Tailwind CSS for styling''
     @ ''Vite for fast development and building''
     @ ''Try it out: Navigate to /repos/tanstack to see server-side data fetching in action!''"
  by (simp add: HomePage_def)

text \<open>
  Witness for C7 (amended): \<open>GET /\<close> in production, with a shell that holds the token
  at position 25.
\<close>

theorem static_route_document_witness:
  "shell (example_process True None)
      (example_platform example_shell
         (entry_server (example_world (api_response 200 ''OK'' []) (api_response 200 ''OK'' []))))
      (originalUrl (example_request GET ''/'')) = Inr example_shell
   \<and> StringIndexOf example_shell placeholder = Some 25
   \<and> status (fst (ssr_handler (example_process True None)
      (example_platform example_shell
         (entry_server (example_world (api_response 200 ''OK'' []) (api_response 200 ''OK'' []))))
      (example_request GET ''/''))) = 200
   \<and> \<not> str_includes (res_body (fst (ssr_handler (example_process True None)
      (example_platform example_shell
         (entry_server (example_world (api_response 200 ''OK'' []) (api_response 200 ''OK'' []))))
      (example_request GET ''/'')))) placeholder"
proof -
  let ?w = "example_world (api_response 200 ''OK'' []) (api_response 200 ''OK'' [])"
  let ?p = "example_process True None"
  let ?pw = "example_platform example_shell (entry_server ?w)"
  let ?req = "example_request GET ''/''"
  let ?rq = "\<lparr>rq_url = ''http://localhost:3000/'', rq_method = ''GET'', rq_headers = [], rq_body = None\<rparr>"
  let ?frag = "''<main>'' @ textContent (RootLayout None HomePage) @ ''</main>''"
  have shell: "shell ?p ?pw (originalUrl ?req) = Inr example_shell"
    by (simp add: shell_def example_process_def example_platform_def resolve_def)
  have loaded: "render_module ?p ?pw = Inr (entry_server ?w)"
    by (simp add: render_module_def example_process_def example_platform_def)
  have request: "new_Request ?pw (request_url ?p (originalUrl ?req)) = Inr ?rq"
    by (simp add: new_Request_def request_url_def port_def example_process_def example_platform_def
          example_request_def)
  have route: "match_route (pathname (rq_url ?rq)) = IndexRoute"
    by (simp add: match_route_def pathname_def)
  have token: "StringIndexOf example_shell placeholder = Some 25"
    by (simp add: example_shell_def placeholder_def)
  have once: "\<not> str_includes (drop (25 + length placeholder) example_shell) placeholder"
    by (simp add: example_shell_def placeholder_def str_includes_def)
  have frag: "?frag = renderToString ?w (queryClient (getRouter ())) (RootLayout (NODE_ENV ?w) HomePage)"
    by (simp add: example_world_def)
  have content: "?frag = ''<main>HomeTanStack ReposWelcome to the SSR React App!''
     @ ''This is a server-side rendered React application built with:''
     @ ''React 18 with TypeScript''
     @ ''TanStack Router for type-safe routing''
     @ ''TanStack Query for data fetching and caching''
     @ ''Tailwind CSS for styling''
     @ ''Vite for fast development and building''
     @ ''Try it out: Navigate to /repos/tanstack to see server-side data fetching in action!''
     @ ''SSR React App with TanStack Router & Query</main>''"
    by (simp add: textContent_RootLayout textContent_HomePage)
  have plain: "plain_replacement ?frag"
    unfolding content by simp
  have clean: "\<not> str_includes ?frag placeholder"
    unfolding content by (simp add: placeholder_def str_includes_def)
  have delimited: "tag_delimited ?frag"
    unfolding content by (simp add: tag_delimited_def)
  note result = static_route_document [OF shell loaded request route token once frag plain clean delimited]
  have answered: "status (fst (ssr_handler ?p ?pw ?req)) = 200"
    using result [THEN conjunct1] by simp
  have substituted: "\<not> str_includes (res_body (fst (ssr_handler ?p ?pw ?req))) placeholder"
    using result by (rule conjunct2)
  show ?thesis
    using shell token answered substituted by blast
qed

text \<open>
  Claim C7 as stated fails for \<open>GET /\<close>: an unreadable shell gives status 500; a shell
  with two tokens keeps the second; markup with the pattern \<open>$&\<close> brings the token back
  in its place; and empty markup between the halves of a token joins them to a token.
\<close>

theorem unsubstituted_token_counterexample:
  "status (fst (ssr_handler (example_process True None)
      (failing_platform (entry_server (markup_world ''<p>hi</p>'')))
      (example_request GET ''/''))) = 500
   \<and> fst (ssr_handler (example_process True None)
      (example_platform ''<a><!--app-html--></a><b><!--app-html--></b>''
         (entry_server (markup_world ''<p>hi</p>'')))
      (example_request GET ''/''))
     = \<lparr>status = 200, res_headers = [(''Content-Type'', ''text/html'')],
        res_body = ''<a><p>hi</p></a><b><!--app-html--></b>''\<rparr>
   \<and> fst (ssr_handler (example_process True None)
      (example_platform example_shell (entry_server (markup_world ''<p>costs $&</p>'')))
      (example_request GET ''/''))
     = \<lparr>status = 200, res_headers = [(''Content-Type'', ''text/html'')],
        res_body = ''<html><body><div id=root><p>costs <!--app-html--></p></div></body></html>''\<rparr>
   \<and> fst (ssr_handler (example_process True None)
      (example_platform ''<!--app<!--app-html-->-html-->'' (entry_server (markup_world [])))
      (example_request GET ''/''))
     = \<lparr>status = 200, res_headers = [(''Content-Type'', ''text/html'')],
        res_body = ''<!--app-html-->''\<rparr>"
proof -
  let ?rq = "\<lparr>rq_url = ''http://localhost:3000/'', rq_method = ''GET'', rq_headers = [], rq_body = None\<rparr>"
  have route: "match_route (pathname (rq_url ?rq)) = IndexRoute"
    by (simp add: match_route_def pathname_def)
  have markup: "fst (render (markup_world m) ?rq) = m" for m
    using render_index [OF route, of "markup_world m"]
    by (simp add: markup_world_def)
  have sel: "fst (select_branch (example_process True None)
               (example_platform template (entry_server (markup_world m))) ''/'')
             = Inr (template, m)" for template m
    by (simp add: select_branch_result shell_def render_module_def example_process_def
          example_platform_def resolve_def new_Request_def request_url_def port_def entry_server_def markup)
  have unread: "\<exists>e. fst (select_branch (example_process True None)
               (failing_platform (entry_server (markup_world ''<p>hi</p>''))) ''/'') = Inl e"
    by (simp add: select_branch_result shell_def example_process_def failing_platform_def)
  have a: "status (fst (ssr_handler (example_process True None)
      (failing_platform (entry_server (markup_world ''<p>hi</p>'')))
      (example_request GET ''/''))) = 500"
    using unread by (auto simp: ssr_handler_response example_request_def)
  show ?thesis
    using a by (simp add: ssr_handler_response example_request_def sel)
       (simp add: replace_def placeholder_def example_shell_def)
qed

end
